theory Spec2Isabelle
  imports Complex_Main "HOL-Library.Log_Nat" "HOL-Library.Product_Lexorder"
begin

text \<open>
  The analytics recalculation of the MagicRoute backend (\<open>index.js\<close>): the function
  \<open>recalculateAnalytics\<close> with its helper \<open>getWeekNumber\<close>, and the parts of the
  handlers \<open>POST /api/orders\<close> and \<open>PUT /api/orders/:id\<close> that build the created and
  the updated order. The definitions follow the source line by line; the source is quoted
  before the definition that embeds it.
\<close>

section \<open>JavaScript numbers\<close>

text \<open>
  The numbers of the language are IEEE 754 doubles. A finite double is modelled by the
  rational number it denotes, beside \<open>NaN\<close> and the two infinities. An arithmetic
  operation computes the exact result and rounds it to the nearest double, ties to the
  even significand: 53 significant bits, steps of \<open>2^-1074\<close> below \<open>2^-1022\<close> (the
  subnormal numbers), and an infinity when the rounded magnitude reaches \<open>2^1024\<close>.
  The two zeros are one value here: they are equal under \<open>===\<close>, both falsy, and
  printed alike by \<open>String\<close> and \<open>JSON.stringify\<close>.
\<close>

datatype jsnum = NaN | NInf | Fin rat | PInf

text \<open>
  The binary exponent of a non-zero rational: the \<open>e\<close> with \<open>2^e \<le> |x| < 2^(e+1)\<close>.
  The difference of the bit lengths of numerator and denominator is \<open>e\<close> or \<open>e + 1\<close>.
\<close>

definition expo :: "rat \<Rightarrow> int" where
  "expo x =
     (let p = \<bar>fst (quotient_of x)\<bar>;
          q = snd (quotient_of x);
          d = bitlen p - bitlen q
      in if 2 powi d \<le> \<bar>x\<bar> then d else d - 1)"

text \<open>The nearest integer, the even one of two that are equally near.\<close>

definition round_even :: "rat \<Rightarrow> int" where
  "round_even y =
     (let f = \<lfloor>y\<rfloor>; d = y - of_int f
      in if d < 1 / 2 then f else if 1 / 2 < d then f + 1 else if even f then f else f + 1)"

text \<open>
  The multiple of the unit in the last place of \<open>x\<close> that is nearest to \<open>x\<close>, and the
  double that an operation with the exact result \<open>x\<close> returns: an infinity when the
  binary exponent of the rounded result is 1024 or more.
\<close>

definition nearest :: "rat \<Rightarrow> rat" where
  "nearest x =
     (if x = 0 then 0
      else let q = 2 powi (max (expo x - 52) (- 1074))
           in of_int (round_even (x / q)) * q)"

definition fl :: "rat \<Rightarrow> jsnum" where
  "fl x =
     (let r = nearest x
      in if r \<noteq> 0 \<and> 1024 \<le> expo r then (if 0 < r then PInf else NInf) else Fin r)"

fun js_add :: "jsnum \<Rightarrow> jsnum \<Rightarrow> jsnum" where
  "js_add NaN _ = NaN"
| "js_add _ NaN = NaN"
| "js_add PInf NInf = NaN"
| "js_add NInf PInf = NaN"
| "js_add PInf _ = PInf"
| "js_add _ PInf = PInf"
| "js_add NInf _ = NInf"
| "js_add _ NInf = NInf"
| "js_add (Fin a) (Fin b) = fl (a + b)"

text \<open>The sign of an operand of \<open>*\<close> or \<open>/\<close>: \<open>-1\<close>, \<open>0\<close> or \<open>1\<close>.\<close>

fun js_sign :: "jsnum \<Rightarrow> rat" where
  "js_sign NaN = 0"
| "js_sign NInf = -1"
| "js_sign PInf = 1"
| "js_sign (Fin a) = sgn a"

definition inf_of_sign :: "rat \<Rightarrow> jsnum" where
  "inf_of_sign s = (if s = 0 then NaN else if 0 < s then PInf else NInf)"

fun js_mul :: "jsnum \<Rightarrow> jsnum \<Rightarrow> jsnum" where
  "js_mul NaN _ = NaN"
| "js_mul _ NaN = NaN"
| "js_mul (Fin a) (Fin b) = fl (a * b)"
| "js_mul x y = inf_of_sign (js_sign x * js_sign y)"

text \<open>
  Division. The source divides only by a positive count; a zero divisor gives an
  infinity for a non-zero dividend and \<open>NaN\<close> for \<open>0 / 0\<close> (the sign of a zero is not
  modelled).
\<close>

fun js_div :: "jsnum \<Rightarrow> jsnum \<Rightarrow> jsnum" where
  "js_div NaN _ = NaN"
| "js_div _ NaN = NaN"
| "js_div (Fin a) (Fin b) = (if b = 0 then inf_of_sign (sgn a) else fl (a / b))"
| "js_div (Fin a) _ = Fin 0"
| "js_div x (Fin b) = inf_of_sign (js_sign x * (if b < 0 then -1 else 1))"
| "js_div _ _ = NaN"

text \<open>The relational operator \<open>>\<close> on numbers: false as soon as one side is \<open>NaN\<close>.\<close>

fun js_gt :: "jsnum \<Rightarrow> jsnum \<Rightarrow> bool" where
  "js_gt NaN _ = False"
| "js_gt _ NaN = False"
| "js_gt PInf y = (y \<noteq> PInf)"
| "js_gt NInf _ = False"
| "js_gt (Fin a) PInf = False"
| "js_gt (Fin a) NInf = True"
| "js_gt (Fin a) (Fin b) = (b < a)"

text \<open>The number literal \<open>1.1\<close>: the double nearest to \<open>11/10\<close>.\<close>

definition literal_1_1 :: jsnum where
  "literal_1_1 = fl (11 / 10)"

section \<open>JavaScript values\<close>

text \<open>
  The values a field of an order can hold after \<open>JSON.parse\<close>: \<open>null\<close>, a boolean, a
  number, a string, an array, or an object, given by its properties in order. A missing
  field (\<open>undefined\<close>) is the absence of the key.
\<close>

datatype jsval =
  JNull | JBool bool | JNum jsnum | JStr string | JArr "jsval list" | JObj "(string \<times> jsval) list"

type_synonym obj = "string \<rightharpoonup> jsval"

fun truthy :: "jsval \<Rightarrow> bool" where
  "truthy JNull = False"
| "truthy (JBool b) = b"
| "truthy (JNum n) = (n \<noteq> NaN \<and> n \<noteq> Fin 0)"
| "truthy (JStr s) = (s \<noteq> [])"
| "truthy (JArr vs) = True"
| "truthy (JObj ps) = True"

text \<open>\<open>x || d\<close> where \<open>x\<close> is a property read (possibly \<open>undefined\<close>).\<close>

fun js_or :: "jsval option \<Rightarrow> jsval \<Rightarrow> jsval" where
  "js_or None d = d"
| "js_or (Some v) d = (if truthy v then v else d)"

text \<open>\<open>n || 0\<close> on a number.\<close>

definition num_or0 :: "jsnum \<Rightarrow> jsnum" where
  "num_or0 n = (if n = NaN \<or> n = Fin 0 then Fin 0 else n)"


section \<open>Strings\<close>

text \<open>
  Strings are lists of 8-bit characters. The decimal rendering of an integer is what
  \<open>String(n)\<close> and a template literal produce for an integral number below \<open>10^21\<close> in
  magnitude.
\<close>

definition digit_char :: "nat \<Rightarrow> char" where
  "digit_char d = ''0123456789'' ! d"

fun digits10 :: "nat \<Rightarrow> string" where
  "digits10 n = (if n < 10 then [digit_char n] else digits10 (n div 10) @ [digit_char (n mod 10)])"

declare digits10.simps [simp del]

definition int_to_string :: "int \<Rightarrow> string" where
  "int_to_string i = (if i < 0 then CHR ''-'' # digits10 (nat (- i)) else digits10 (nat i))"

text \<open>
  The value of a character as a digit in a radix up to 36; 36 for a character that is
  no digit.
\<close>

definition digit_val :: "char \<Rightarrow> nat" where
  "digit_val c =
     (let n = (of_char c :: nat)
      in if 48 \<le> n \<and> n \<le> 57 then n - 48
         else if 97 \<le> n \<and> n \<le> 122 then n - 87
         else if 65 \<le> n \<and> n \<le> 90 then n - 55
         else 36)"

definition is_space :: "char \<Rightarrow> bool" where
  "is_space c = ((of_char c :: nat) \<in> {9, 10, 11, 12, 13, 32, 160})"

text \<open>
  \<open>parseInt(s)\<close> with no radix argument: leading white space is skipped, a sign is read,
  a \<open>0x\<close> or \<open>0X\<close> prefix selects radix 16, and the longest prefix of digits is
  read; the result is the double nearest to the integer read, and \<open>NaN\<close> when there
  is no digit.
\<close>

definition parseInt :: "string \<Rightarrow> jsnum" where
  "parseInt s =
     (let s1 = dropWhile is_space s;
          neg = (case s1 of c # _ \<Rightarrow> c = CHR ''-'' | [] \<Rightarrow> False);
          s2 = (case s1 of c # r \<Rightarrow> if c = CHR ''-'' \<or> c = CHR ''+'' then r else s1 | [] \<Rightarrow> s1);
          hex = (case s2 of c # x # _ \<Rightarrow> c = CHR ''0'' \<and> (x = CHR ''x'' \<or> x = CHR ''X'') | _ \<Rightarrow> False);
          R = (if hex then 16 else 10 :: nat);
          s3 = (if hex then drop 2 s2 else s2);
          Z = takeWhile (\<lambda>c. digit_val c < R) s3
      in if Z = [] then NaN
         else let v = foldl (\<lambda>a c. a * int R + int (digit_val c)) 0 Z
              in fl (of_int (if neg then - v else v)))"

section \<open>Dates\<close>

text \<open>
  A \<open>Date\<close> is its time value: milliseconds since the epoch, or \<open>None\<close> for an invalid
  date (time value \<open>NaN\<close>). The abstract operations of the language on time values are
  written out on integers; the calendar conversion is the proleptic Gregorian one.
\<close>

definition msPerDay :: int where
  "msPerDay = 86400000"

definition Day :: "int \<Rightarrow> int" where
  "Day t = t div msPerDay"

definition TimeWithinDay :: "int \<Rightarrow> int" where
  "TimeWithinDay t = t mod msPerDay"

definition WeekDay :: "int \<Rightarrow> int" where
  "WeekDay t = (Day t + 4) mod 7"

text \<open>Year, month (1 to 12) and day of the month of a day number.\<close>

definition civil_from_days :: "int \<Rightarrow> int \<times> int \<times> int" where
  "civil_from_days z =
     (let z1 = z + 719468;
          era = z1 div 146097;
          doe = z1 mod 146097;
          yoe = (doe - doe div 1460 + doe div 36524 - doe div 146096) div 365;
          doy = doe - (365 * yoe + yoe div 4 - yoe div 100);
          mp = (5 * doy + 2) div 153;
          d = doy - (153 * mp + 2) div 5 + 1;
          m = (if mp < 10 then mp + 3 else mp - 9);
          y = yoe + era * 400
      in (if m \<le> 2 then y + 1 else y, m, d))"

text \<open>The day number of the day \<open>d\<close> of month \<open>m\<close> (1 to 12) of year \<open>y\<close>.\<close>

definition days_from_civil :: "int \<Rightarrow> int \<Rightarrow> int \<Rightarrow> int" where
  "days_from_civil y m d =
     (let y1 = (if m \<le> 2 then y - 1 else y);
          era = y1 div 400;
          yoe = y1 mod 400;
          doy = (153 * (if 2 < m then m - 3 else m + 9) + 2) div 5 + d - 1;
          doe = yoe * 365 + yoe div 4 - yoe div 100 + doy
      in era * 146097 + doe - 719468)"

definition YearFromTime :: "int \<Rightarrow> int" where
  "YearFromTime t = fst (civil_from_days (Day t))"

text \<open>Months count from 0 in the language.\<close>

definition MonthFromTime :: "int \<Rightarrow> int" where
  "MonthFromTime t = fst (snd (civil_from_days (Day t))) - 1"

definition DateFromTime :: "int \<Rightarrow> int" where
  "DateFromTime t = snd (snd (civil_from_days (Day t)))"

definition MakeDay :: "int \<Rightarrow> int \<Rightarrow> int \<Rightarrow> int" where
  "MakeDay year month dt = days_from_civil (year + month div 12) (month mod 12 + 1) 1 + dt - 1"

definition MakeDate :: "int \<Rightarrow> int \<Rightarrow> int" where
  "MakeDate day time = day * msPerDay + time"

definition TimeClip :: "int \<Rightarrow> int option" where
  "TimeClip t = (if \<bar>t\<bar> \<le> 8640000000000000 then Some t else None)"

text \<open>\<open>Date.UTC(y, m, d)\<close>: a year from 0 to 99 means 1900 + y.\<close>

definition Date_UTC :: "int \<Rightarrow> int \<Rightarrow> int \<Rightarrow> int option" where
  "Date_UTC y m d =
     (let yr = (if 0 \<le> y \<and> y \<le> 99 then 1900 + y else y)
      in TimeClip (MakeDate (MakeDay yr m d) 0))"

section \<open>The environment\<close>

text \<open>
  What the code reads from the JavaScript runtime and the host, and does not define
  itself, is a parameter:
  \<^item> \<open>localTZA\<close>: the offset of local time from UTC, in milliseconds, at a time value
    (\<open>getFullYear\<close>, \<open>getMonth\<close> and \<open>getDate\<close> read local time);
  \<^item> \<open>dateParse\<close>: \<open>Date.parse\<close>, the time value of a string, \<open>None\<close> for \<open>NaN\<close>;
  \<^item> \<open>parseFloatStr\<close>: \<open>parseFloat\<close> on a string;
  \<^item> \<open>numToString\<close>: \<open>String(n)\<close> for a number;
  \<^item> \<open>stringToNumber\<close>: \<open>Number(s)\<close> for a string.
  The wall clock is a parameter of its own: \<open>clock k\<close> is the ISO string that the
  \<open>k\<close>-th evaluation of \<open>new Date().toISOString()\<close> in a call returns.
\<close>

record js_env =
  localTZA :: "int \<Rightarrow> int"
  dateParse :: "string \<Rightarrow> int option"
  parseFloatStr :: "string \<Rightarrow> jsnum"
  numToString :: "jsnum \<Rightarrow> string"
  stringToNumber :: "string \<Rightarrow> jsnum"

type_synonym clock = "nat \<Rightarrow> string"

section \<open>The ISO week key\<close>

text \<open>
  \<^verbatim>\<open>
  function getWeekNumber(date) {
    const d = new Date(Date.UTC(date.getFullYear(), date.getMonth(), date.getDate()));
    const dayNum = d.getUTCDay() || 7;
    d.setUTCDate(d.getUTCDate() + 4 - dayNum);
    const yearStart = new Date(Date.UTC(d.getUTCFullYear(), 0, 1));
    return `${d.getUTCFullYear()}-W${Math.ceil((((d - yearStart) / 86400000) + 1) / 7)}`;
  }
  \<close>
  Every operation on an invalid date yields \<open>NaN\<close>, which the template prints as
  \<open>NaN\<close>.
\<close>

definition shift_to_thursday :: "int option \<Rightarrow> int option" where
  "shift_to_thursday d =
     (let dayNum = (case d of None \<Rightarrow> 7 | Some t \<Rightarrow> if WeekDay t = 0 then 7 else WeekDay t)
      in case d of
           None \<Rightarrow> None
         | Some t \<Rightarrow>
             TimeClip (MakeDate (MakeDay (YearFromTime t) (MonthFromTime t)
                                   (DateFromTime t + 4 - dayNum))
                                (TimeWithinDay t)))"

definition week_of_utc_date :: "int option \<Rightarrow> string" where
  "week_of_utc_date d =
     (case shift_to_thursday d of
        None \<Rightarrow> ''NaN-WNaN''
      | Some t \<Rightarrow>
          (case Date_UTC (YearFromTime t) 0 1 of
             None \<Rightarrow> int_to_string (YearFromTime t) @ ''-WNaN''
           | Some yearStart \<Rightarrow>
               int_to_string (YearFromTime t) @ ''-W'' @
               int_to_string \<lceil>((of_int (t - yearStart) / 86400000 + 1) / 7 :: rat)\<rceil>))"

text \<open>
  The first line of the function builds \<open>d\<close> from the local calendar date of its
  argument. The second and third line move \<open>d\<close> to the Thursday of its week
  (\<open>shift_to_thursday\<close>), and the last two print the year of that Thursday and the
  number of the week in that year (\<open>week_of_utc_date\<close>).
\<close>

definition getWeekNumber :: "js_env \<Rightarrow> int option \<Rightarrow> string" where
  "getWeekNumber env date =
     week_of_utc_date
       (case date of
          None \<Rightarrow> None
        | Some t \<Rightarrow>
            let lt = t + localTZA env t
            in Date_UTC (YearFromTime lt) (MonthFromTime lt) (DateFromTime lt))"

section \<open>Objects used as dictionaries\<close>

text \<open>
  \<open>ordersByDate\<close>, \<open>ordersByWeek\<close>, \<open>shopRevenue\<close> and \<open>paymentBreakdown\<close> are plain
  objects used as dictionaries from strings. An object is modelled by the list of its own
  properties in creation order. \<open>Object.keys\<close> does not enumerate in creation order:
  keys that are array indices (canonical decimal numerals below \<open>2^32 - 1\<close>) come first,
  in ascending numeric order, and the other keys follow in creation order.
\<close>

type_synonym 'a dict = "(string \<times> 'a) list"

fun dict_set :: "string \<Rightarrow> 'a \<Rightarrow> 'a dict \<Rightarrow> 'a dict" where
  "dict_set k v [] = [(k, v)]"
| "dict_set k v ((k', w) # d) = (if k' = k then (k, v) # d else (k', w) # dict_set k v d)"

definition index_value :: "string \<Rightarrow> int" where
  "index_value s = foldl (\<lambda>a c. a * 10 + int (digit_val c)) 0 s"

definition is_array_index :: "string \<Rightarrow> bool" where
  "is_array_index s =
     (s \<noteq> [] \<and> list_all (\<lambda>c. digit_val c < 10) s \<and> (s = ''0'' \<or> hd s \<noteq> CHR ''0'')
      \<and> index_value s < 4294967295)"

definition dict_entries :: "'a dict \<Rightarrow> 'a dict" where
  "dict_entries d =
     sort_key (\<lambda>e. index_value (fst e)) (filter (\<lambda>e. is_array_index (fst e)) d)
     @ filter (\<lambda>e. \<not> is_array_index (fst e)) d"

definition Object_keys :: "'a dict \<Rightarrow> string list" where
  "Object_keys d = map fst (dict_entries d)"

text \<open>
  The names that every plain object inherits from \<open>Object.prototype\<close>. A read of such a
  key on an empty object does not give \<open>undefined\<close>.
\<close>

definition proto_member :: "string \<Rightarrow> bool" where
  "proto_member k =
     (k \<in> set [''constructor'', ''__defineGetter__'', ''__defineSetter__'', ''hasOwnProperty'',
               ''__lookupGetter__'', ''__lookupSetter__'', ''isPrototypeOf'',
               ''propertyIsEnumerable'', ''toString'', ''valueOf'', ''__proto__'',
               ''toLocaleString''])"


section \<open>Conversions\<close>

text \<open>
  The code converts field values to strings (a property key, a template literal, the
  argument of \<open>parseFloat\<close>) and to numbers (the arguments of \<open>Math.max\<close>). A
  primitive value converts without fail. An array converts to the strings of its
  elements joined by commas, \<open>null\<close> giving the empty string. An object converts through
  its \<open>toString\<close> method, which a plain object inherits and which answers
  \<open>[object Object]\<close>; an object that has a property \<open>toString\<close> of its own (after
  \<open>JSON.parse\<close> its value is no function) cannot be converted, and the conversion
  throws a \<open>TypeError\<close>.
\<close>

datatype error = TypeError

fun string_throws :: "jsval \<Rightarrow> bool" where
  "string_throws (JArr vs) = list_ex string_throws vs"
| "string_throws (JObj ps) = (''toString'' \<in> set (map fst ps))"
| "string_throws v = False"

fun join_comma :: "string list \<Rightarrow> string" where
  "join_comma [] = []"
| "join_comma [s] = s"
| "join_comma (s # t # r) = s @ '','' @ join_comma (t # r)"

fun str_of :: "js_env \<Rightarrow> jsval \<Rightarrow> string" where
  "str_of env JNull = ''null''"
| "str_of env (JBool b) = (if b then ''true'' else ''false'')"
| "str_of env (JNum n) = numToString env n"
| "str_of env (JStr s) = s"
| "str_of env (JArr vs) = join_comma (map (\<lambda>v. if v = JNull then [] else str_of env v) vs)"
| "str_of env (JObj ps) = ''[object Object]''"

text \<open>
  \<open>String(v)\<close> of a property read, as a property key and in a template literal: the
  string when the conversion succeeds (\<open>to_string\<close>), and the conversion with its
  failure (\<open>ToString\<close>).
\<close>

definition to_string :: "js_env \<Rightarrow> jsval option \<Rightarrow> string" where
  "to_string env x = (case x of None \<Rightarrow> ''undefined'' | Some v \<Rightarrow> str_of env v)"

definition converts :: "jsval option \<Rightarrow> bool" where
  "converts x = (case x of None \<Rightarrow> True | Some v \<Rightarrow> \<not> string_throws v)"

definition ToString :: "js_env \<Rightarrow> jsval option \<Rightarrow> error + string" where
  "ToString env x = (if converts x then Inr (to_string env x) else Inl TypeError)"

text \<open>
  \<open>Number(v)\<close> of a property read: \<open>undefined\<close> gives \<open>NaN\<close>, \<open>null\<close> gives 0, and an
  array or an object is converted to a string first.
\<close>

fun to_number :: "js_env \<Rightarrow> jsval option \<Rightarrow> jsnum" where
  "to_number env None = NaN"
| "to_number env (Some JNull) = Fin 0"
| "to_number env (Some (JBool b)) = Fin (if b then 1 else 0)"
| "to_number env (Some (JNum n)) = n"
| "to_number env (Some (JStr s)) = stringToNumber env s"
| "to_number env (Some v) = stringToNumber env (str_of env v)"

definition ToNumber :: "js_env \<Rightarrow> jsval option \<Rightarrow> error + jsnum" where
  "ToNumber env x = (if converts x then Inr (to_number env x) else Inl TypeError)"

text \<open>
  \<open>parseFloat(v)\<close> converts its argument to a string first: a number reads back as
  itself, \<open>true\<close> and \<open>null\<close> give \<open>NaN\<close>.
\<close>

fun float_of :: "js_env \<Rightarrow> jsval \<Rightarrow> jsnum" where
  "float_of env (JStr s) = parseFloatStr env s"
| "float_of env (JNum n) = n"
| "float_of env (JBool b) = NaN"
| "float_of env JNull = NaN"
| "float_of env v = parseFloatStr env (str_of env v)"

definition parseFloat :: "js_env \<Rightarrow> jsval \<Rightarrow> error + jsnum" where
  "parseFloat env v = (if string_throws v then Inl TypeError else Inr (float_of env v))"

text \<open>
  A loop whose body can throw: \<open>forEach\<close> and \<open>reduce\<close> with an accumulator, and
  \<open>map\<close>. The first exception ends the loop.
\<close>

fun foldl_err :: "('b \<Rightarrow> 'a \<Rightarrow> error + 'b) \<Rightarrow> 'b \<Rightarrow> 'a list \<Rightarrow> error + 'b" where
  "foldl_err f a [] = Inr a"
| "foldl_err f a (x # xs) = (case f a x of Inl e \<Rightarrow> Inl e | Inr b \<Rightarrow> foldl_err f b xs)"

fun map_err :: "('a \<Rightarrow> error + 'b) \<Rightarrow> 'a list \<Rightarrow> error + 'b list" where
  "map_err f [] = Inr []"
| "map_err f (x # xs) =
     (case f x of
        Inl e \<Rightarrow> Inl e
      | Inr y \<Rightarrow> (case map_err f xs of Inl e \<Rightarrow> Inl e | Inr ys \<Rightarrow> Inr (y # ys)))"

section \<open>Orders and the derived collections\<close>

text \<open>
  An order is an object, and the ledger is a list of orders: the handlers append
  objects only. The fields of an order are what a request body brought, and can hold any
  value.
\<close>

type_synonym order = obj

text \<open>
  One record stands for the elements of \<open>dailySales\<close> and of \<open>weeklySales\<close>: the two
  object literals of the source have the same fields but for the key, which is \<open>date\<close>
  in a daily element and \<open>week\<close> in a weekly one (\<open>bkey\<close> here). The field \<open>id\<close> is
  \<open>sale_id\<close>.
\<close>

record sale =
  sale_id :: jsnum
  bkey :: string
  totalRevenue :: jsnum
  totalOrders :: nat
  deliveredOrders :: nat
  pendingOrders :: nat
  inProcessOrders :: nat
  averageOrderValue :: jsnum
  topShop :: string
  topShopRevenue :: jsnum
  paymentBreakdown :: "jsnum dict"

record prediction =
  p_id :: nat
  p_type :: string
  timeframe :: string
  predictedValue :: jsnum
  confidence :: nat
  factors :: "string list"

record report =
  r_id :: nat
  r_type :: string
  r_date :: string
  r_totalRevenue :: jsnum
  r_totalOrders :: nat
  r_averageOrderValue :: jsnum
  r_topShop :: string
  r_paymentBreakdown :: "jsnum dict"

record notification =
  n_id :: nat
  n_type :: string
  message :: string
  timestamp :: jsval
  read :: bool

record analytics =
  dailySales :: "sale list"
  weeklySales :: "sale list"
  predictions :: "prediction list"
  reports :: "report list"
  notifications :: "notification list"

section \<open>Bucketing\<close>

text \<open>
  \<^verbatim>\<open>
  if (!ordersByDate[date]) { ordersByDate[date] = []; }
  ordersByDate[date].push(order);
  \<close>
\<close>

fun dict_push :: "string \<Rightarrow> 'a \<Rightarrow> 'a list dict \<Rightarrow> 'a list dict" where
  "dict_push k x [] = [(k, [x])]"
| "dict_push k x ((k', xs) # d) =
     (if k' = k then (k', xs @ [x]) # d else (k', xs) # dict_push k x d)"

text \<open>
  \<^verbatim>\<open>
  orders.forEach(order => {
    if (order.createdAt) {
      const date = order.createdAt.split('T')[0];
      const week = getWeekNumber(new Date(order.createdAt));
      ...
    }
  });
  \<close>
  The \<open>forEach\<close> over the ledger. An order whose \<open>createdAt\<close> is missing or falsy is
  skipped. A truthy \<open>createdAt\<close> that is no string has no \<open>split\<close> method, and a date
  key that names a member of \<open>Object.prototype\<close> finds that member instead of an array,
  which has no \<open>push\<close>: both throw a \<open>TypeError\<close>, which ends the recalculation. (A week
  key always contains \<open>-W\<close> and names no such member.)
\<close>

fun group_orders ::
  "js_env \<Rightarrow> order list \<Rightarrow> order list dict \<times> order list dict
     \<Rightarrow> error + order list dict \<times> order list dict" where
  "group_orders env [] g = Inr g"
| "group_orders env (order # rest) (ordersByDate, ordersByWeek) =
     (case order ''createdAt'' of
        None \<Rightarrow> group_orders env rest (ordersByDate, ordersByWeek)
      | Some c \<Rightarrow>
          if \<not> truthy c then group_orders env rest (ordersByDate, ordersByWeek)
          else (case c of
                  JStr s \<Rightarrow>
                    let date = takeWhile (\<lambda>ch. ch \<noteq> CHR ''T'') s;
                        week = getWeekNumber env (dateParse env s)
                    in if proto_member date then Inl TypeError
                       else group_orders env rest
                              (dict_push date order ordersByDate,
                               dict_push week order ordersByWeek)
                | _ \<Rightarrow> Inl TypeError))"

section \<open>Aggregation\<close>

text \<open>\<open>parseFloat(order.totalAmount || 0)\<close>\<close>

definition amount :: "js_env \<Rightarrow> order \<Rightarrow> error + jsnum" where
  "amount env order = parseFloat env (js_or (order ''totalAmount'') (JNum (Fin 0)))"

text \<open>\<open>orders.reduce((sum, order) => sum + parseFloat(order.totalAmount || 0), 0)\<close>\<close>

definition sum_amounts :: "js_env \<Rightarrow> order list \<Rightarrow> error + jsnum" where
  "sum_amounts env os =
     foldl_err (\<lambda>sum order. case amount env order of
                               Inl e \<Rightarrow> Inl e
                             | Inr a \<Rightarrow> Inr (js_add sum a))
       (Fin 0) os"

text \<open>\<open>orders.filter(order => order.status === st).length\<close>\<close>

definition count_status :: "string \<Rightarrow> order list \<Rightarrow> nat" where
  "count_status st os = length (filter (\<lambda>order. order ''status'' = Some (JStr st)) os)"

text \<open>
  \<^verbatim>\<open>
  const paymentBreakdown = { Balance: 0, Cash: 0, Card: 0, Bank: 0 };
  dayOrders.forEach(order => {
    const method = order.paymentMethod || 'Not Set';
    const amount = parseFloat(order.totalAmount || 0);
    if (method === 'Bank Transfer') {
      paymentBreakdown['Bank'] += amount;
    } else if (paymentBreakdown.hasOwnProperty(method)) {
      paymentBreakdown[method] += amount;
    }
  });
  \<close>
  \<open>hasOwnProperty\<close> and the property access convert the method to a property key, the
  string of the method: the array \<open>["Cash"]\<close> has the key \<open>Cash\<close>. The strict equality
  with \<open>'Bank Transfer'\<close> holds for that string only.
\<close>

definition dict_add :: "string \<Rightarrow> jsnum \<Rightarrow> jsnum dict \<Rightarrow> jsnum dict" where
  "dict_add k a d = map (\<lambda>(k', v). if k' = k then (k', js_add v a) else (k', v)) d"

definition hasOwnProperty :: "'a dict \<Rightarrow> string \<Rightarrow> bool" where
  "hasOwnProperty d k = (k \<in> set (map fst d))"

definition payment_step :: "js_env \<Rightarrow> jsnum dict \<Rightarrow> order \<Rightarrow> error + jsnum dict" where
  "payment_step env breakdown order =
     (let method = js_or (order ''paymentMethod'') (JStr ''Not Set'')
      in case amount env order of
           Inl e \<Rightarrow> Inl e
         | Inr amt \<Rightarrow>
             if method = JStr ''Bank Transfer'' then Inr (dict_add ''Bank'' amt breakdown)
             else (case ToString env (Some method) of
                     Inl e \<Rightarrow> Inl e
                   | Inr k \<Rightarrow>
                       if hasOwnProperty breakdown k then Inr (dict_add k amt breakdown)
                       else Inr breakdown))"

definition payment_init :: "jsnum dict" where
  "payment_init = [(''Balance'', Fin 0), (''Cash'', Fin 0), (''Card'', Fin 0), (''Bank'', Fin 0)]"

definition payment_breakdown :: "js_env \<Rightarrow> order list \<Rightarrow> error + jsnum dict" where
  "payment_breakdown env os = foldl_err (payment_step env) payment_init os"

text \<open>
  \<^verbatim>\<open>
  const shopRevenue = {};
  dayOrders.forEach(order => {
    const shop = order.shopName;
    shopRevenue[shop] = (shopRevenue[shop] || 0) + parseFloat(order.totalAmount || 0);
  });
  const topShop = Object.keys(shopRevenue).reduce((a, b) =>
    shopRevenue[a] > shopRevenue[b] ? a : b, 'N/A');
  const topShopRevenue = shopRevenue[topShop] || 0;
  \<close>
  A read of a key that the object does not have gives \<open>undefined\<close>: \<open>undefined || 0\<close>
  is \<open>0\<close>, and a comparison with \<open>undefined\<close> is false. Shop names that are members of
  \<open>Object.prototype\<close> are outside this model: there the read gives the inherited
  member, and the sum becomes a string.
\<close>

definition read_or0 :: "jsnum dict \<Rightarrow> string \<Rightarrow> jsnum" where
  "read_or0 d k = (case map_of d k of None \<Rightarrow> Fin 0 | Some v \<Rightarrow> num_or0 v)"

definition read_gt :: "jsnum dict \<Rightarrow> string \<Rightarrow> string \<Rightarrow> bool" where
  "read_gt d a b =
     (case map_of d a of
        None \<Rightarrow> False
      | Some x \<Rightarrow> (case map_of d b of None \<Rightarrow> False | Some y \<Rightarrow> js_gt x y))"

definition shop_step :: "js_env \<Rightarrow> jsnum dict \<Rightarrow> order \<Rightarrow> error + jsnum dict" where
  "shop_step env shopRevenue order =
     (case ToString env (order ''shopName'') of
        Inl e \<Rightarrow> Inl e
      | Inr shop \<Rightarrow>
          (case amount env order of
             Inl e \<Rightarrow> Inl e
           | Inr a \<Rightarrow> Inr (dict_set shop (js_add (read_or0 shopRevenue shop) a) shopRevenue)))"

definition shop_revenue :: "js_env \<Rightarrow> order list \<Rightarrow> error + jsnum dict" where
  "shop_revenue env os = foldl_err (shop_step env) [] os"

definition top_shop :: "jsnum dict \<Rightarrow> string" where
  "top_shop shopRevenue =
     foldl (\<lambda>a b. if read_gt shopRevenue a b then a else b) ''N/A'' (Object_keys shopRevenue)"

text \<open>
  The object literal that both \<open>map\<close> callbacks return, from the \<open>id\<close>, the key and
  the member orders of a bucket. The two callbacks have the same body but for the names
  \<open>dayOrders\<close> and \<open>weekOrders\<close> and for the \<open>id\<close>.
  \<^verbatim>\<open>
  const totalRevenue = dayOrders.reduce((sum, order) => sum + parseFloat(order.totalAmount || 0), 0);
  const totalOrders = dayOrders.length;
  const deliveredOrders = dayOrders.filter(order => order.status === 'Delivered').length;
  const pendingOrders = dayOrders.filter(order => order.status === 'Pending').length;
  const inProcessOrders = dayOrders.filter(order => order.status === 'In Process').length;
  ...
  averageOrderValue: totalOrders > 0 ? totalRevenue / totalOrders : 0,
  \<close>
\<close>

definition make_sale ::
  "jsnum \<Rightarrow> string \<Rightarrow> order list \<Rightarrow> jsnum \<Rightarrow> jsnum dict \<Rightarrow> jsnum dict \<Rightarrow> sale" where
  "make_sale i k os revenue breakdown shopRevenue =
     (let n = length os;
          top = top_shop shopRevenue
      in \<lparr>sale_id = i, bkey = k,
          totalRevenue = revenue,
          totalOrders = n,
          deliveredOrders = count_status ''Delivered'' os,
          pendingOrders = count_status ''Pending'' os,
          inProcessOrders = count_status ''In Process'' os,
          averageOrderValue = (if 0 < n then js_div revenue (Fin (of_nat n)) else Fin 0),
          topShop = top,
          topShopRevenue = read_or0 shopRevenue top,
          paymentBreakdown = breakdown\<rparr>)"

definition bucket :: "js_env \<Rightarrow> jsnum \<Rightarrow> string \<Rightarrow> order list \<Rightarrow> error + sale" where
  "bucket env i k os =
     (case sum_amounts env os of
        Inl e \<Rightarrow> Inl e
      | Inr revenue \<Rightarrow>
          (case payment_breakdown env os of
             Inl e \<Rightarrow> Inl e
           | Inr breakdown \<Rightarrow>
               (case shop_revenue env os of
                  Inl e \<Rightarrow> Inl e
                | Inr shopRevenue \<Rightarrow> Inr (make_sale i k os revenue breakdown shopRevenue))))"

text \<open>\<open>id: parseInt(date.replace(/-/g, ''))\<close>\<close>

definition daily_sale :: "js_env \<Rightarrow> string \<times> order list \<Rightarrow> error + sale" where
  "daily_sale env e =
     bucket env (parseInt (filter (\<lambda>c. c \<noteq> CHR ''-'') (fst e))) (fst e) (snd e)"

text \<open>\<open>id: parseInt(week.replace('W', ''))\<close>: only the first \<open>W\<close> is removed.\<close>

definition weekly_sale :: "js_env \<Rightarrow> string \<times> order list \<Rightarrow> error + sale" where
  "weekly_sale env e =
     bucket env (parseInt (remove1 (CHR ''W'') (fst e))) (fst e) (snd e)"

section \<open>Forecast, report, notification\<close>

text \<open>
  \<^verbatim>\<open>
  const predictions = [{
    id: 1, type: "revenue", timeframe: "tomorrow",
    predictedValue: dailySales.length > 0
      ? dailySales[dailySales.length - 1].totalRevenue * 1.1 : 850.00,
    confidence: 85,
    factors: ["historical_trend", "day_of_week", "seasonal_pattern"]
  }];
  \<close>
\<close>

definition make_prediction :: "sale list \<Rightarrow> prediction" where
  "make_prediction daily =
     \<lparr>p_id = 1, p_type = ''revenue'', timeframe = ''tomorrow'',
      predictedValue = (if 0 < length daily
                        then js_mul (totalRevenue (last daily)) literal_1_1
                        else Fin 850),
      confidence = 85,
      factors = [''historical_trend'', ''day_of_week'', ''seasonal_pattern'']\<rparr>"

text \<open>
  \<open>const latestWeekly = weeklySales[weeklySales.length - 1] || {}\<close>: every field of the
  report is read from the last weekly element with a default, which also replaces a
  falsy value (\<open>0\<close>, \<open>NaN\<close>, the empty string).
  \<^verbatim>\<open>
  const reports = [{
    id: 1, type: "comprehensive",
    date: new Date().toISOString().split('T')[0],
    totalRevenue: latestWeekly.totalRevenue || 0,
    totalOrders: latestWeekly.totalOrders || 0,
    averageOrderValue: latestWeekly.averageOrderValue || 0,
    topShop: latestWeekly.topShop || 'N/A',
    paymentBreakdown: latestWeekly.paymentBreakdown || { Balance: 0, Cash: 0, Card: 0, Bank: 0 }
  }];
  \<close>
\<close>

definition make_report :: "clock \<Rightarrow> sale list \<Rightarrow> report" where
  "make_report clock weekly =
     \<lparr>r_id = 1, r_type = ''comprehensive'',
      r_date = takeWhile (\<lambda>ch. ch \<noteq> CHR ''T'') (clock 0),
      r_totalRevenue =
        (if weekly = [] then Fin 0 else num_or0 (totalRevenue (last weekly))),
      r_totalOrders = (if weekly = [] then 0 else totalOrders (last weekly)),
      r_averageOrderValue =
        (if weekly = [] then Fin 0 else num_or0 (averageOrderValue (last weekly))),
      r_topShop =
        (if weekly = [] \<or> topShop (last weekly) = [] then ''N/A''
         else topShop (last weekly)),
      r_paymentBreakdown =
        (if weekly = [] then payment_init else paymentBreakdown (last weekly))\<rparr>"

text \<open>
  \<^verbatim>\<open>
  const notifications = [];
  const latestOrder = orders[orders.length - 1];
  if (latestOrder && latestOrder.status === 'Delivered') {
    notifications.push({
      id: 1, type: "order_update",
      message: `Order #${latestOrder.id} delivered successfully`,
      timestamp: latestOrder.deliveredAt || new Date().toISOString(),
      read: false
    });
  }
  \<close>
  The clock is read a first time for the report and a second time for the notification.
  The template literal converts the \<open>id\<close> to a string.
\<close>

definition make_notifications ::
  "js_env \<Rightarrow> clock \<Rightarrow> order list \<Rightarrow> error + notification list" where
  "make_notifications env clock orders =
     (if orders = [] then Inr []
      else let latestOrder = last orders
           in if latestOrder ''status'' = Some (JStr ''Delivered'')
              then (case ToString env (latestOrder ''id'') of
                      Inl e \<Rightarrow> Inl e
                    | Inr s \<Rightarrow>
                        Inr [\<lparr>n_id = 1, n_type = ''order_update'',
                              message = ''Order #'' @ s @ '' delivered successfully'',
                              timestamp = js_or (latestOrder ''deliveredAt'') (JStr (clock 1)),
                              read = False\<rparr>])
              else Inr [])"

section \<open>The recalculation\<close>

text \<open>
  The function in the order of its statements: the grouping loop, the daily and the
  weekly elements, the prediction, the report, the notification, and the log lines, of
  which one sums the amounts of all orders of the ledger:
  \<^verbatim>\<open>
  console.log('Total Revenue:',
    orders.reduce((sum, order) => sum + parseFloat(order.totalAmount || 0), 0));
  \<close>
  An exception in any of them ends the call.
\<close>

definition recalculateAnalytics :: "js_env \<Rightarrow> clock \<Rightarrow> order list \<Rightarrow> error + analytics" where
  "recalculateAnalytics env clock orders =
     (case group_orders env orders ([], []) of
        Inl e \<Rightarrow> Inl e
      | Inr (ordersByDate, ordersByWeek) \<Rightarrow>
          (case map_err (daily_sale env) (dict_entries ordersByDate) of
             Inl e \<Rightarrow> Inl e
           | Inr daily \<Rightarrow>
               (case map_err (weekly_sale env) (dict_entries ordersByWeek) of
                  Inl e \<Rightarrow> Inl e
                | Inr weekly \<Rightarrow>
                    (case make_notifications env clock orders of
                       Inl e \<Rightarrow> Inl e
                     | Inr notes \<Rightarrow>
                         (case sum_amounts env orders of
                            Inl e \<Rightarrow> Inl e
                          | Inr logged \<Rightarrow>
                              Inr \<lparr>dailySales = daily,
                                   weeklySales = weekly,
                                   predictions = [make_prediction daily],
                                   reports = [make_report clock weekly],
                                   notifications = notes\<rparr>)))))"


section \<open>Bucketing as a grouping by key\<close>

text \<open>
  The description of the buckets that the theorems below use: the day key and the
  week key of an order (none for an order that the loop skips), the orders that the loop
  can process, and the members of a bucket, which are the orders of the ledger with the
  key of the bucket, in ledger order.
\<close>

definition date_of :: "order \<Rightarrow> string option" where
  "date_of order =
     (case order ''createdAt'' of
        Some (JStr s) \<Rightarrow> if s = [] then None else Some (takeWhile (\<lambda>ch. ch \<noteq> CHR ''T'') s)
      | _ \<Rightarrow> None)"

definition week_of :: "js_env \<Rightarrow> order \<Rightarrow> string option" where
  "week_of env order =
     (case order ''createdAt'' of
        Some (JStr s) \<Rightarrow> if s = [] then None else Some (getWeekNumber env (dateParse env s))
      | _ \<Rightarrow> None)"

definition groupable :: "order \<Rightarrow> bool" where
  "groupable order =
     (case order ''createdAt'' of
        None \<Rightarrow> True
      | Some (JStr s) \<Rightarrow> s = [] \<or> \<not> proto_member (takeWhile (\<lambda>ch. ch \<noteq> CHR ''T'') s)
      | Some v \<Rightarrow> \<not> truthy v)"

fun push_all :: "('a \<Rightarrow> string option) \<Rightarrow> 'a list \<Rightarrow> 'a list dict \<Rightarrow> 'a list dict" where
  "push_all f [] d = d"
| "push_all f (x # xs) d =
     push_all f xs (case f x of None \<Rightarrow> d | Some k \<Rightarrow> dict_push k x d)"

definition members :: "('a \<Rightarrow> string option) \<Rightarrow> 'a list \<Rightarrow> string \<Rightarrow> 'a list" where
  "members f xs k = filter (\<lambda>x. f x = Some k) xs"


section \<open>The values of a recalculation that returns\<close>

text \<open>
  The conversions that a recalculation makes, and what it computes from their results.
  The amount, the payment method and the shop name of every order of a bucket are
  converted, the \<open>id\<close> of the last order is converted when its status is \<open>Delivered\<close>,
  and the amount of every order of the ledger is converted for the log line.
\<close>

definition amount_ok :: "order \<Rightarrow> bool" where
  "amount_ok order = (\<not> string_throws (js_or (order ''totalAmount'') (JNum (Fin 0))))"

definition method_of :: "order \<Rightarrow> jsval" where
  "method_of order = js_or (order ''paymentMethod'') (JStr ''Not Set'')"

definition order_ok :: "order \<Rightarrow> bool" where
  "order_ok order =
     (amount_ok order \<and> \<not> string_throws (method_of order) \<and> converts (order ''shopName''))"

definition notification_ok :: "order list \<Rightarrow> bool" where
  "notification_ok orders =
     (if orders \<noteq> [] \<and> last orders ''status'' = Some (JStr ''Delivered'')
      then converts (last orders ''id'') else True)"

definition recalculable :: "order list \<Rightarrow> bool" where
  "recalculable orders =
     (list_all groupable orders
      \<and> list_all order_ok (filter (\<lambda>order. date_of order \<noteq> None) orders)
      \<and> notification_ok orders
      \<and> list_all amount_ok orders)"

text \<open>The steps of the aggregation on the results of the conversions.\<close>

definition amount_of :: "js_env \<Rightarrow> order \<Rightarrow> jsnum" where
  "amount_of env order = float_of env (js_or (order ''totalAmount'') (JNum (Fin 0)))"

definition sum_of :: "js_env \<Rightarrow> order list \<Rightarrow> jsnum" where
  "sum_of env os = foldl (\<lambda>sum order. js_add sum (amount_of env order)) (Fin 0) os"

definition payment_step_of :: "js_env \<Rightarrow> jsnum dict \<Rightarrow> order \<Rightarrow> jsnum dict" where
  "payment_step_of env breakdown order =
     (if method_of order = JStr ''Bank Transfer''
      then dict_add ''Bank'' (amount_of env order) breakdown
      else if hasOwnProperty breakdown (str_of env (method_of order))
           then dict_add (str_of env (method_of order)) (amount_of env order) breakdown
           else breakdown)"

definition payment_breakdown_of :: "js_env \<Rightarrow> order list \<Rightarrow> jsnum dict" where
  "payment_breakdown_of env os = foldl (payment_step_of env) payment_init os"

definition shop_of :: "js_env \<Rightarrow> order \<Rightarrow> string" where
  "shop_of env order = to_string env (order ''shopName'')"

definition shop_step_of :: "js_env \<Rightarrow> jsnum dict \<Rightarrow> order \<Rightarrow> jsnum dict" where
  "shop_step_of env shopRevenue order =
     dict_set (shop_of env order)
       (js_add (read_or0 shopRevenue (shop_of env order)) (amount_of env order)) shopRevenue"

definition shop_revenue_of :: "js_env \<Rightarrow> order list \<Rightarrow> jsnum dict" where
  "shop_revenue_of env os = foldl (shop_step_of env) [] os"

definition bucket_of :: "js_env \<Rightarrow> jsnum \<Rightarrow> string \<Rightarrow> order list \<Rightarrow> sale" where
  "bucket_of env i k os =
     make_sale i k os (sum_of env os) (payment_breakdown_of env os) (shop_revenue_of env os)"

definition daily_sale_of :: "js_env \<Rightarrow> string \<times> order list \<Rightarrow> sale" where
  "daily_sale_of env e =
     bucket_of env (parseInt (filter (\<lambda>c. c \<noteq> CHR ''-'') (fst e))) (fst e) (snd e)"

definition weekly_sale_of :: "js_env \<Rightarrow> string \<times> order list \<Rightarrow> sale" where
  "weekly_sale_of env e =
     bucket_of env (parseInt (remove1 (CHR ''W'') (fst e))) (fst e) (snd e)"

definition notifications_of :: "js_env \<Rightarrow> clock \<Rightarrow> order list \<Rightarrow> notification list" where
  "notifications_of env clock orders =
     (if orders \<noteq> [] \<and> last orders ''status'' = Some (JStr ''Delivered'')
      then [\<lparr>n_id = 1, n_type = ''order_update'',
             message = ''Order #'' @ to_string env (last orders ''id'')
                       @ '' delivered successfully'',
             timestamp = js_or (last orders ''deliveredAt'') (JStr (clock 1)),
             read = False\<rparr>]
      else [])"

definition analytics_of :: "js_env \<Rightarrow> clock \<Rightarrow> order list \<Rightarrow> analytics" where
  "analytics_of env clock orders =
     (let daily = map (daily_sale_of env) (dict_entries (push_all date_of orders []));
          weekly = map (weekly_sale_of env) (dict_entries (push_all (week_of env) orders []))
      in \<lparr>dailySales = daily,
          weeklySales = weekly,
          predictions = [make_prediction daily],
          reports = [make_report clock weekly],
          notifications = notifications_of env clock orders\<rparr>)"

section \<open>Statements about the derived collections\<close>

text \<open>An order that none of the three status counters counts.\<close>

definition unclassified :: "order \<Rightarrow> bool" where
  "unclassified order =
     (order ''status'' \<noteq> Some (JStr ''Delivered'')
      \<and> order ''status'' \<noteq> Some (JStr ''Pending'')
      \<and> order ''status'' \<noteq> Some (JStr ''In Process''))"

text \<open>
  The relations between the counters of an element \<open>b\<close> whose members are \<open>os\<close>, and
  between its average and its revenue.
\<close>

definition counters_hold :: "sale \<Rightarrow> order list \<Rightarrow> bool" where
  "counters_hold b os =
     (totalOrders b = length os
      \<and> 0 < totalOrders b
      \<and> totalOrders b
          = deliveredOrders b + pendingOrders b + inProcessOrders b
            + length (filter unclassified os))"

definition average_is_quotient :: "sale \<Rightarrow> bool" where
  "average_is_quotient b =
     (averageOrderValue b
        = (if 0 < totalOrders b then js_div (totalRevenue b) (Fin (of_nat (totalOrders b)))
           else Fin 0))"

text \<open>
  Equality of two numbers up to a tolerance: both finite and no further apart than the
  tolerance, or the same infinity. \<open>NaN\<close> is near to nothing, as it is equal to nothing
  in the language.
\<close>

fun near :: "rat \<Rightarrow> jsnum \<Rightarrow> jsnum \<Rightarrow> bool" where
  "near tol (Fin a) (Fin b) = (\<bar>a - b\<bar> \<le> tol)"
| "near tol PInf PInf = True"
| "near tol NInf NInf = True"
| "near tol x y = False"

text \<open>
  The rounding of the quotient and of the product: three units of relative error
  \<open>2^-53\<close> on the revenue, and the absolute error of the subnormal range.
\<close>

definition rounding_slack :: "jsnum \<Rightarrow> nat \<Rightarrow> rat" where
  "rounding_slack t n =
     (case t of Fin x \<Rightarrow> 3 * \<bar>x\<bar> / 2 ^ 53 + (of_nat n + 1) / 2 ^ 1074 | _ \<Rightarrow> 0)"

text \<open>
  A revenue whose product with the average cannot overflow: not \<open>NaN\<close>, and at most
  \<open>2^1023\<close> in magnitude when it is finite.
\<close>

definition in_range :: "jsnum \<Rightarrow> bool" where
  "in_range t = (case t of Fin x \<Rightarrow> \<bar>x\<bar> \<le> 2 ^ 1023 | NaN \<Rightarrow> False | _ \<Rightarrow> True)"

definition product_near_revenue :: "sale \<Rightarrow> bool" where
  "product_near_revenue b =
     near (rounding_slack (totalRevenue b) (totalOrders b))
       (js_mul (averageOrderValue b) (Fin (of_nat (totalOrders b)))) (totalRevenue b)"

text \<open>
  The result of a recalculation without what it reads from the clock: the \<open>date\<close> of
  the report and the \<open>timestamp\<close> of the notification.
\<close>

definition without_clock ::
  "error + analytics
     \<Rightarrow> error + sale list \<times> sale list \<times> prediction list \<times> report list \<times> notification list" where
  "without_clock res =
     (case res of
        Inl e \<Rightarrow> Inl e
      | Inr r \<Rightarrow>
          Inr (dailySales r, weeklySales r, predictions r,
               map (\<lambda>rep. rep\<lparr>r_date := []\<rparr>) (reports r),
               map (\<lambda>n. n\<lparr>timestamp := JNull\<rparr>) (notifications r)))"

text \<open>
  The payment breakdown stated by method. The name of the method of an order is the
  property key that its \<open>paymentMethod\<close> converts to (\<open>Not Set\<close> for a missing or falsy
  one). Each of \<open>Balance\<close>, \<open>Cash\<close> and \<open>Card\<close> holds the sum, from 0 and in ledger order,
  of the amounts of the members whose method has that name; \<open>Bank\<close> holds the sum of
  the amounts of the members whose method is the string \<open>Bank Transfer\<close> or has the name
  \<open>Bank\<close>.
\<close>

definition method_name :: "js_env \<Rightarrow> order \<Rightarrow> string" where
  "method_name env order = str_of env (method_of order)"

definition paid_to :: "js_env \<Rightarrow> string \<Rightarrow> order \<Rightarrow> bool" where
  "paid_to env k order =
     (if method_of order = JStr ''Bank Transfer'' then k = ''Bank''
      else method_name env order = k)"

definition breakdown_by_method :: "js_env \<Rightarrow> order list \<Rightarrow> jsnum dict" where
  "breakdown_by_method env os =
     [(''Balance'', sum_of env (filter (paid_to env ''Balance'') os)),
      (''Cash'', sum_of env (filter (paid_to env ''Cash'') os)),
      (''Card'', sum_of env (filter (paid_to env ''Card'') os)),
      (''Bank'', sum_of env (filter (paid_to env ''Bank'') os))]"

text \<open>
  The week number that a week key shows: the integer after the \<open>W\<close>. This is what
  the specification takes the \<open>id\<close> of a weekly element to be.
\<close>

definition week_number_of_key :: "string \<Rightarrow> jsnum" where
  "week_number_of_key k = parseInt (drop 1 (dropWhile (\<lambda>c. c \<noteq> CHR ''W'') k))"

text \<open>
  The top shop stated by shop: the name under which an order is counted (\<open>shop_of\<close>),
  the sum of the amounts of the orders of a shop, and the order in which \<open>Object.keys\<close>
  enumerates the shops of a bucket: each name once, array indices first in ascending
  order, the other names in the order of their first order. A shop is the last maximum
  of a list of shops when no shop of the list has a greater sum and every shop after it
  in the list has a smaller one.
\<close>

definition shop_sum :: "js_env \<Rightarrow> order list \<Rightarrow> string \<Rightarrow> jsnum" where
  "shop_sum env os k = sum_of env (filter (\<lambda>order. shop_of env order = k) os)"

definition first_seen :: "'a list \<Rightarrow> 'a list" where
  "first_seen xs = rev (remdups (rev xs))"

definition shop_order :: "js_env \<Rightarrow> order list \<Rightarrow> string list" where
  "shop_order env os =
     (let ks = first_seen (map (shop_of env) os)
      in sort_key index_value (filter is_array_index ks)
         @ filter (\<lambda>k. \<not> is_array_index k) ks)"

definition last_maximal :: "(string \<Rightarrow> jsnum) \<Rightarrow> string list \<Rightarrow> string \<Rightarrow> bool" where
  "last_maximal revenue ks k =
     (k \<in> set ks
      \<and> list_all (\<lambda>j. \<not> js_gt (revenue j) (revenue k)) ks
      \<and> list_all (\<lambda>j. js_gt (revenue k) (revenue j)) (tl (dropWhile (\<lambda>j. j \<noteq> k) ks)))"

definition finite_amount :: "js_env \<Rightarrow> order \<Rightarrow> bool" where
  "finite_amount env order = (case amount_of env order of Fin a \<Rightarrow> True | _ \<Rightarrow> False)"

text \<open>
  The position of a number in the order of \<open>>\<close>, for numbers other than \<open>NaN\<close>: the
  infinities below and above the finite numbers.
\<close>

fun js_rank :: "jsnum \<Rightarrow> int \<times> rat" where
  "js_rank NInf = (- 1, 0)"
| "js_rank (Fin a) = (0, a)"
| "js_rank PInf = (1, 0)"
| "js_rank NaN = (2, 0)"

section \<open>Creating and updating an order\<close>

text \<open>
  \<open>Math.max\<close> converts each argument to a number (\<open>undefined\<close> to \<open>NaN\<close>, \<open>null\<close> to
  0) and returns \<open>NaN\<close> as soon as one of them is \<open>NaN\<close>; of no argument it is
  \<open>-Infinity\<close>.
\<close>

definition js_max2 :: "jsnum \<Rightarrow> jsnum \<Rightarrow> jsnum" where
  "js_max2 a b = (if a = NaN \<or> b = NaN then NaN else if js_gt b a then b else a)"

definition Math_max :: "jsnum list \<Rightarrow> jsnum" where
  "Math_max xs = foldl js_max2 NInf xs"

definition padStart :: "nat \<Rightarrow> char \<Rightarrow> string \<Rightarrow> string" where
  "padStart n c s = replicate (n - length s) c @ s"

text \<open>
  \<open>const maxId = Math.max(...orders.map(order => order.id), 0)\<close>. The conversion of a
  stored \<open>id\<close> to a number can throw.
\<close>

definition max_id :: "js_env \<Rightarrow> order list \<Rightarrow> error + jsnum" where
  "max_id env orders =
     (case map_err (\<lambda>order. ToNumber env (order ''id'')) orders of
        Inl e \<Rightarrow> Inl e
      | Inr ids \<Rightarrow> Inr (Math_max (ids @ [Fin 0])))"

text \<open>
  \<^verbatim>\<open>
  const newOrder = {
    id: maxId + 1,
    ...req.body,
    basketNo: maxId + 1,
    deliveryNo: `D${String(maxId + 1).padStart(3, '0')}`,
    status: 'Pending',
    deliveryNotes: '',
    createdAt: new Date().toISOString(),
    deliveredAt: null,
    paymentMethod: req.body.paymentMethod || ''
  };
  orders.push(newOrder);
  \<close>
  In an object literal a later property replaces an earlier one of the same name, and
  a spread copies every property of its argument at its place in the literal. The sum
  \<open>maxId + 1\<close> is rounded as every sum is.
\<close>

definition create_order :: "js_env \<Rightarrow> clock \<Rightarrow> obj \<Rightarrow> jsnum \<Rightarrow> order" where
  "create_order env clock body maxId =
     ([''id'' \<mapsto> JNum (js_add maxId (Fin 1))] ++ body)
       (''basketNo'' \<mapsto> JNum (js_add maxId (Fin 1)),
        ''deliveryNo'' \<mapsto>
           JStr (CHR ''D'' # padStart 3 (CHR ''0'') (numToString env (js_add maxId (Fin 1)))),
        ''status'' \<mapsto> JStr ''Pending'',
        ''deliveryNotes'' \<mapsto> JStr [],
        ''createdAt'' \<mapsto> JStr (clock 0),
        ''deliveredAt'' \<mapsto> JNull,
        ''paymentMethod'' \<mapsto> js_or (body ''paymentMethod'') (JStr []))"

text \<open>
  The ledger after the request. The handler catches an exception and answers 500;
  when \<open>Math.max\<close> throws, nothing has been appended.
\<close>

definition post_order :: "js_env \<Rightarrow> clock \<Rightarrow> obj \<Rightarrow> order list \<Rightarrow> error + order list" where
  "post_order env clock body orders =
     (case max_id env orders of
        Inl e \<Rightarrow> Inl e
      | Inr maxId \<Rightarrow> Inr (orders @ [create_order env clock body maxId]))"

text \<open>
  The next id stated from the stored ids: one more than the greatest of 0 and the
  numbers that the stored ids convert to.
\<close>

definition id_numbers :: "js_env \<Rightarrow> order list \<Rightarrow> jsnum list" where
  "id_numbers env orders = map (\<lambda>order. to_number env (order ''id'')) orders"

definition next_id :: "js_env \<Rightarrow> order list \<Rightarrow> jsnum" where
  "next_id env orders = js_add (Math_max (id_numbers env orders @ [Fin 0])) (Fin 1)"

definition new_order :: "js_env \<Rightarrow> clock \<Rightarrow> obj \<Rightarrow> order list \<Rightarrow> order" where
  "new_order env clock body orders =
     create_order env clock body (Math_max (id_numbers env orders @ [Fin 0]))"

text \<open>
  \<^verbatim>\<open>
  const updatedOrder = {
    ...orders[orderIndex],
    ...req.body,
    // Add delivery notes and delivered time if status is Delivered
    ...(req.body.status === 'Delivered' && {
      deliveryNotes: req.body.deliveryNotes || '',
      deliveredAt: req.body.deliveredAt || new Date().toISOString()
    }),
    // Ensure payment method is always a string
    paymentMethod: req.body.paymentMethod || ''
  };
  \<close>
  The spread of \<open>false\<close> adds no property.
\<close>

definition update_order :: "clock \<Rightarrow> obj \<Rightarrow> order \<Rightarrow> order" where
  "update_order clock body order =
     (order ++ body
        ++ (if body ''status'' = Some (JStr ''Delivered'')
            then [''deliveryNotes'' \<mapsto> js_or (body ''deliveryNotes'') (JStr []),
                  ''deliveredAt'' \<mapsto> js_or (body ''deliveredAt'') (JStr (clock 0))]
            else Map.empty))
       (''paymentMethod'' \<mapsto> js_or (body ''paymentMethod'') (JStr []))"

text \<open>
  \<open>orders.findIndex(order => order.id === id)\<close> with \<open>id = parseInt(req.params.id)\<close>:
  strict equality holds for a number equal to \<open>id\<close>, and never for \<open>NaN\<close>. The handler
  answers 404 (\<open>None\<close>) when no order matches, and replaces the first match otherwise.
\<close>

fun findIndex :: "('a \<Rightarrow> bool) \<Rightarrow> 'a list \<Rightarrow> nat option" where
  "findIndex P [] = None"
| "findIndex P (x # xs) = (if P x then Some 0 else map_option Suc (findIndex P xs))"

definition put_order :: "clock \<Rightarrow> string \<Rightarrow> obj \<Rightarrow> order list \<Rightarrow> order list option" where
  "put_order clock param body orders =
     (let i = parseInt param
      in case findIndex (\<lambda>order. i \<noteq> NaN \<and> order ''id'' = Some (JNum i)) orders of
           None \<Rightarrow> None
         | Some orderIndex \<Rightarrow>
             Some (orders[orderIndex := update_order clock body (orders ! orderIndex)]))"

section \<open>Example data\<close>

text \<open>
  An environment three hours ahead of UTC, with the time values of the creation
  timestamps and the value of the amount string used below. Its \<open>numToString\<close> is
  right for integral numbers, and its \<open>stringToNumber\<close> is not used (the \<open>id\<close>s of the
  examples are numbers).
\<close>

definition example_env :: js_env where
  "example_env =
     \<lparr>localTZA = (\<lambda>_. 10800000),
      dateParse = (\<lambda>s. if s = ''2024-01-02T10:00:00.000Z'' then Some 1704189600000
                        else if s = ''2023-12-31T21:30:00.000Z'' then Some 1704058200000
                        else None),
      parseFloatStr = (\<lambda>s. if s = ''100.00'' then Fin 100 else NaN),
      numToString = (\<lambda>n. case n of Fin r \<Rightarrow> int_to_string \<lfloor>r\<rfloor> | NaN \<Rightarrow> ''NaN''
                          | PInf \<Rightarrow> ''Infinity'' | NInf \<Rightarrow> ''-Infinity''),
      stringToNumber = (\<lambda>_. NaN)\<rparr>"

definition example_clock :: clock where
  "example_clock k = ''2024-02-03T08:15:00.000Z''"

text \<open>A delivered order, and a request that sets the status to \<open>Delivered\<close> again.\<close>

definition delivered_order :: order where
  "delivered_order =
     [''id'' \<mapsto> JNum (Fin 1), ''shopName'' \<mapsto> JStr ''A'', ''totalAmount'' \<mapsto> JStr ''100.00'',
      ''status'' \<mapsto> JStr ''Delivered'', ''createdAt'' \<mapsto> JStr ''2024-01-02T10:00:00.000Z'',
      ''deliveredAt'' \<mapsto> JStr ''2024-01-02T12:00:00.000Z'',
      ''deliveryNotes'' \<mapsto> JStr ''left with neighbour'', ''paymentMethod'' \<mapsto> JStr ''Cash'']"

definition delivered_body :: obj where
  "delivered_body = [''status'' \<mapsto> JStr ''Delivered'']"

text \<open>A request to create an order that brings an \<open>id\<close> and a \<open>status\<close> of its own.\<close>

definition create_body :: obj where
  "create_body =
     [''id'' \<mapsto> JNum (Fin 7), ''shopName'' \<mapsto> JStr ''B'', ''status'' \<mapsto> JStr ''Delivered'']"

text \<open>A pending order and the request that reports its delivery.\<close>

definition pending_order :: order where
  "pending_order =
     [''id'' \<mapsto> JNum (Fin 2), ''shopName'' \<mapsto> JStr ''B'', ''totalAmount'' \<mapsto> JNum (Fin 30),
      ''status'' \<mapsto> JStr ''Pending'', ''createdAt'' \<mapsto> JStr ''2024-01-02T10:00:00.000Z'',
      ''deliveredAt'' \<mapsto> JNull, ''deliveryNotes'' \<mapsto> JStr [], ''paymentMethod'' \<mapsto> JStr []]"

definition delivery_body :: obj where
  "delivery_body = [''status'' \<mapsto> JStr ''Delivered'', ''deliveryNotes'' \<mapsto> JStr ''handed over'']"

definition process_body :: obj where
  "process_body = [''status'' \<mapsto> JStr ''In Process'']"

text \<open>
  Two orders of one day from two shops with the same revenue; the second is paid by
  the method \<open>Bank\<close>. They were created at 21:30 UTC on 31 December 2023, which is
  1 January 2024 in the local time of the example environment.
\<close>

definition order_a :: order where
  "order_a =
     [''id'' \<mapsto> JNum (Fin 1), ''shopName'' \<mapsto> JStr ''A'', ''totalAmount'' \<mapsto> JNum (Fin 50),
      ''status'' \<mapsto> JStr ''Delivered'', ''createdAt'' \<mapsto> JStr ''2023-12-31T21:30:00.000Z'',
      ''deliveredAt'' \<mapsto> JStr ''2024-01-01T09:00:00.000Z'', ''deliveryNotes'' \<mapsto> JStr [],
      ''paymentMethod'' \<mapsto> JStr ''Cash'']"

definition order_b :: order where
  "order_b =
     [''id'' \<mapsto> JNum (Fin 2), ''shopName'' \<mapsto> JStr ''B'', ''totalAmount'' \<mapsto> JNum (Fin 50),
      ''status'' \<mapsto> JStr ''Pending'', ''createdAt'' \<mapsto> JStr ''2023-12-31T21:30:00.000Z'',
      ''deliveredAt'' \<mapsto> JNull, ''deliveryNotes'' \<mapsto> JStr [],
      ''paymentMethod'' \<mapsto> JStr ''Bank'']"

definition tie_ledger :: "order list" where
  "tie_ledger = [order_a, order_b]"

text \<open>
  Two orders of one day and one shop, of 50 in cash and of 30 by bank transfer.
\<close>

definition order_c :: order where
  "order_c =
     [''id'' \<mapsto> JNum (Fin 1), ''shopName'' \<mapsto> JStr ''A'', ''totalAmount'' \<mapsto> JNum (Fin 50),
      ''status'' \<mapsto> JStr ''Pending'', ''createdAt'' \<mapsto> JStr ''2024-01-02T10:00:00.000Z'',
      ''paymentMethod'' \<mapsto> JStr ''Cash'']"

definition order_d :: order where
  "order_d =
     [''id'' \<mapsto> JNum (Fin 2), ''shopName'' \<mapsto> JStr ''A'', ''totalAmount'' \<mapsto> JNum (Fin 30),
      ''status'' \<mapsto> JStr ''Pending'', ''createdAt'' \<mapsto> JStr ''2024-01-02T10:00:00.000Z'',
      ''paymentMethod'' \<mapsto> JStr ''Bank Transfer'']"

definition scenario_ledger :: "order list" where
  "scenario_ledger = [order_c, order_d]"

text \<open>The elements that the recalculation derives from the first example.\<close>

definition tie_sale :: "jsnum \<Rightarrow> string \<Rightarrow> sale" where
  "tie_sale i k =
     \<lparr>sale_id = i, bkey = k, totalRevenue = Fin 100, totalOrders = 2, deliveredOrders = 1,
      pendingOrders = 1, inProcessOrders = 0, averageOrderValue = Fin 50, topShop = ''B'',
      topShopRevenue = Fin 50,
      paymentBreakdown =
        [(''Balance'', Fin 0), (''Cash'', Fin 50), (''Card'', Fin 0), (''Bank'', Fin 50)]\<rparr>"

definition tie_analytics :: "clock \<Rightarrow> analytics" where
  "tie_analytics clock =
     \<lparr>dailySales = [tie_sale (Fin 20231231) ''2023-12-31''],
      weeklySales = [tie_sale (Fin 2024) ''2024-W1''],
      predictions = [make_prediction [tie_sale (Fin 20231231) ''2023-12-31'']],
      reports = [make_report clock [tie_sale (Fin 2024) ''2024-W1'']],
      notifications = []\<rparr>"

text \<open>The elements that the recalculation derives from the second example.\<close>

definition scenario_sale :: "jsnum \<Rightarrow> string \<Rightarrow> sale" where
  "scenario_sale i k =
     \<lparr>sale_id = i, bkey = k, totalRevenue = Fin 80, totalOrders = 2, deliveredOrders = 0,
      pendingOrders = 2, inProcessOrders = 0, averageOrderValue = Fin 40, topShop = ''A'',
      topShopRevenue = Fin 80,
      paymentBreakdown =
        [(''Balance'', Fin 0), (''Cash'', Fin 50), (''Card'', Fin 0), (''Bank'', Fin 30)]\<rparr>"

definition scenario_analytics :: "clock \<Rightarrow> analytics" where
  "scenario_analytics clock =
     \<lparr>dailySales = [scenario_sale (Fin 20240102) ''2024-01-02''],
      weeklySales = [scenario_sale (Fin 2024) ''2024-W1''],
      predictions = [make_prediction [scenario_sale (Fin 20240102) ''2024-01-02'']],
      reports = [make_report clock [scenario_sale (Fin 2024) ''2024-W1'']],
      notifications = []\<rparr>"

text \<open>
  An order whose \<open>createdAt\<close> is the number 5, as an update request can store it; an
  order whose amount is no number; an order paid by the method \<open>["Cash"]\<close>; and an
  order whose amount is an object with a property \<open>toString\<close>.
\<close>

definition numbered_order :: order where
  "numbered_order = [''id'' \<mapsto> JNum (Fin 1), ''createdAt'' \<mapsto> JNum (Fin 5)]"

definition unpriced_order :: order where
  "unpriced_order =
     [''id'' \<mapsto> JNum (Fin 1), ''shopName'' \<mapsto> JStr ''A'', ''totalAmount'' \<mapsto> JStr ''n/a'',
      ''status'' \<mapsto> JStr ''Pending'', ''createdAt'' \<mapsto> JStr ''2024-01-02T10:00:00.000Z'',
      ''paymentMethod'' \<mapsto> JStr ''Cash'']"

definition unpriced_sale :: "jsnum \<Rightarrow> string \<Rightarrow> sale" where
  "unpriced_sale i k =
     \<lparr>sale_id = i, bkey = k, totalRevenue = NaN, totalOrders = 1, deliveredOrders = 0,
      pendingOrders = 1, inProcessOrders = 0, averageOrderValue = NaN, topShop = ''A'',
      topShopRevenue = Fin 0,
      paymentBreakdown =
        [(''Balance'', Fin 0), (''Cash'', NaN), (''Card'', Fin 0), (''Bank'', Fin 0)]\<rparr>"

definition array_order :: order where
  "array_order =
     [''id'' \<mapsto> JNum (Fin 3), ''shopName'' \<mapsto> JStr ''A'', ''totalAmount'' \<mapsto> JNum (Fin 20),
      ''status'' \<mapsto> JStr ''Pending'', ''createdAt'' \<mapsto> JStr ''2024-01-02T10:00:00.000Z'',
      ''paymentMethod'' \<mapsto> JArr [JStr ''Cash'']]"

definition opaque_order :: order where
  "opaque_order =
     [''id'' \<mapsto> JNum (Fin 4), ''shopName'' \<mapsto> JStr ''A'',
      ''totalAmount'' \<mapsto> JObj [(''toString'', JNum (Fin 1))],
      ''status'' \<mapsto> JStr ''Pending'', ''paymentMethod'' \<mapsto> JStr ''Cash'']"

definition unpriced_analytics :: "clock \<Rightarrow> analytics" where
  "unpriced_analytics clock =
     \<lparr>dailySales = [unpriced_sale (Fin 20240102) ''2024-01-02''],
      weeklySales = [unpriced_sale (Fin 2024) ''2024-W1''],
      predictions = [make_prediction [unpriced_sale (Fin 20240102) ''2024-01-02'']],
      reports = [make_report clock [unpriced_sale (Fin 2024) ''2024-W1'']],
      notifications = []\<rparr>"

text \<open>
  Six orders of one day from two shops, with the amounts 30.3, 20.2 and 10.1 for the
  shop \<open>A\<close> and the same amounts in the opposite order for the shop \<open>B\<close>. The amounts
  are the doubles that these decimals denote.
\<close>

definition priced :: "string \<Rightarrow> rat \<Rightarrow> order" where
  "priced shop a =
     [''shopName'' \<mapsto> JStr shop, ''totalAmount'' \<mapsto> JNum (Fin a),
      ''status'' \<mapsto> JStr ''Pending'', ''createdAt'' \<mapsto> JStr ''2024-01-02T10:00:00.000Z'',
      ''paymentMethod'' \<mapsto> JStr ''Cash'']"

definition rounding_ledger :: "order list" where
  "rounding_ledger =
     [priced ''A'' (8528691794332877 / 281474976710656),
      priced ''A'' (5685794529555251 / 281474976710656),
      priced ''A'' (5685794529555251 / 562949953421312),
      priced ''B'' (5685794529555251 / 562949953421312),
      priced ''B'' (5685794529555251 / 281474976710656),
      priced ''B'' (8528691794332877 / 281474976710656)]"


section \<open>Rounding\<close>

text \<open>
  The binary exponent is a lower bound, and the nearest integer is at most one half
  away.
\<close>

lemma powi_sub_le:
  fixes p q :: int
  assumes p: "0 < p" and q: "0 < q"
  shows "(2::rat) powi (bitlen p - bitlen q - 1) \<le> of_int p / of_int q"
proof -
  have bp: "2 ^ nat (bitlen p - 1) \<le> p" using bitlen_bounds [OF p] by simp
  have bq: "q < 2 ^ nat (bitlen q)" using bitlen_bounds [OF q] by simp
  have p1: "1 \<le> bitlen p" using p by (simp add: bitlen_alt_def)
  have q0: "0 \<le> bitlen q" by (rule bitlen_nonneg)
  have a: "(2::rat) powi (bitlen p - 1) \<le> of_int p"
  proof -
    have "(2::rat) powi (bitlen p - 1) = 2 ^ nat (bitlen p - 1)"
      using p1 by (simp add: power_int_def)
    also have "\<dots> = of_int (2 ^ nat (bitlen p - 1))" by simp
    also have "\<dots> \<le> of_int p" using bp by (simp only: of_int_le_iff)
    finally show ?thesis .
  qed
  have b: "(of_int q :: rat) \<le> 2 powi (bitlen q)"
  proof -
    have "(of_int q :: rat) \<le> of_int (2 ^ nat (bitlen q))" using bq by (simp only: of_int_le_iff)
    also have "\<dots> = 2 ^ nat (bitlen q)" by simp
    also have "\<dots> = 2 powi (bitlen q)" using q0 by (simp add: power_int_def)
    finally show ?thesis .
  qed
  have "bitlen p - bitlen q - 1 = (bitlen p - 1) - bitlen q" by simp
  then have "(2::rat) powi (bitlen p - bitlen q - 1) = 2 powi (bitlen p - 1) / 2 powi (bitlen q)"
    by (simp only: power_int_diff [of "2::rat", simplified])
  also have "\<dots> \<le> of_int p / 2 powi (bitlen q)"
    using a by (simp add: divide_right_mono)
  also have "\<dots> \<le> of_int p / of_int q"
    using b p q by (simp add: frac_le)
  finally show ?thesis .
qed

lemma expo_lower:
  assumes "x \<noteq> 0"
  shows "2 powi (expo x) \<le> \<bar>x\<bar>"
proof -
  obtain a b where ab: "quotient_of x = (a, b)" by (cases "quotient_of x")
  have b: "0 < b" using quotient_of_denom_pos [OF ab] .
  have x: "x = of_int a / of_int b" using quotient_of_div [OF ab] .
  have a: "a \<noteq> 0" using assms x by auto
  have absx: "\<bar>x\<bar> = of_int \<bar>a\<bar> / of_int b" using b by (simp add: x)
  have "(2::rat) powi (bitlen \<bar>a\<bar> - bitlen b - 1) \<le> \<bar>x\<bar>"
    unfolding absx using a b by (intro powi_sub_le) auto
  then show ?thesis by (auto simp add: expo_def ab Let_def)
qed

lemma powi_sub_gt:
  fixes p q :: int
  assumes p: "0 < p" and q: "0 < q"
  shows "of_int p / of_int q < (2::rat) powi (bitlen p - bitlen q + 1)"
proof -
  have bp: "p < 2 ^ nat (bitlen p)" using bitlen_bounds [OF p] by simp
  have bq: "2 ^ nat (bitlen q - 1) \<le> q" using bitlen_bounds [OF q] by simp
  have p0: "0 \<le> bitlen p" by (rule bitlen_nonneg)
  have q1: "1 \<le> bitlen q" using q by (simp add: bitlen_alt_def)
  have a: "of_int p < (2::rat) powi (bitlen p)"
  proof -
    have "(of_int p :: rat) < of_int (2 ^ nat (bitlen p))" using bp by (simp only: of_int_less_iff)
    also have "\<dots> = 2 ^ nat (bitlen p)" by simp
    also have "\<dots> = 2 powi (bitlen p)" using p0 by (simp add: power_int_def)
    finally show ?thesis .
  qed
  have b: "(2::rat) powi (bitlen q - 1) \<le> of_int q"
  proof -
    have "(2::rat) powi (bitlen q - 1) = 2 ^ nat (bitlen q - 1)"
      using q1 by (simp add: power_int_def)
    also have "\<dots> = of_int (2 ^ nat (bitlen q - 1))" by simp
    also have "\<dots> \<le> of_int q" using bq by (simp only: of_int_le_iff)
    finally show ?thesis .
  qed
  have pos: "(0::rat) < 2 powi (bitlen q - 1)" by simp
  have "of_int p / of_int q \<le> of_int p / (2::rat) powi (bitlen q - 1)"
    using b p pos by (intro frac_le) auto
  also have "\<dots> < 2 powi (bitlen p) / 2 powi (bitlen q - 1)"
    using a pos by (simp add: divide_strict_right_mono)
  also have "\<dots> = 2 powi (bitlen p - (bitlen q - 1))"
    by (simp only: power_int_diff [of "2::rat", simplified])
  also have "bitlen p - (bitlen q - 1) = bitlen p - bitlen q + 1" by simp
  finally show ?thesis .
qed

lemma expo_upper:
  assumes "x \<noteq> 0"
  shows "\<bar>x\<bar> < 2 powi (expo x + 1)"
proof -
  obtain a b where ab: "quotient_of x = (a, b)" by (cases "quotient_of x")
  have b: "0 < b" using quotient_of_denom_pos [OF ab] .
  have x: "x = of_int a / of_int b" using quotient_of_div [OF ab] .
  have a: "a \<noteq> 0" using assms x by auto
  have absx: "\<bar>x\<bar> = of_int \<bar>a\<bar> / of_int b" using b by (simp add: x)
  have "\<bar>x\<bar> < (2::rat) powi (bitlen \<bar>a\<bar> - bitlen b + 1)"
    unfolding absx using a b by (intro powi_sub_gt) auto
  then show ?thesis by (auto simp add: expo_def ab Let_def not_le)
qed

lemma round_even_error: "\<bar>of_int (round_even y) - y\<bar> \<le> 1 / 2"
proof -
  have "of_int \<lfloor>y\<rfloor> \<le> y" "y < of_int \<lfloor>y\<rfloor> + 1" by linarith+
  then show ?thesis by (auto simp add: round_even_def Let_def)
qed

lemma round_even_of_int [simp]: "round_even (of_int j) = j"
  by (simp add: round_even_def)

lemma nearest_error: "\<bar>nearest x - x\<bar> \<le> \<bar>x\<bar> / 2 ^ 53 + 1 / 2 ^ 1075"
proof (cases "x = 0")
  case True then show ?thesis by (simp add: nearest_def)
next
  case False
  define m where "m = max (expo x - 52) (- 1074)"
  define q :: rat where "q = 2 powi m"
  have q: "0 < q" by (simp add: q_def)
  have n: "nearest x = of_int (round_even (x / q)) * q"
    using False by (simp add: nearest_def m_def q_def Let_def)
  have "nearest x - x = (of_int (round_even (x / q)) - x / q) * q"
    using q by (simp add: n field_simps)
  then have "\<bar>nearest x - x\<bar> = \<bar>of_int (round_even (x / q)) - x / q\<bar> * q"
    using q by (simp add: abs_mult)
  also have "\<dots> \<le> 1 / 2 * q"
    using round_even_error [of "x / q"] q by (intro mult_right_mono) auto
  finally have h: "\<bar>nearest x - x\<bar> \<le> q / 2" by simp
  have "q / 2 \<le> \<bar>x\<bar> / 2 ^ 53 + 1 / 2 ^ 1075"
  proof (cases "- 1074 \<le> expo x - 52")
    case True
    then have "m = expo x - 52" unfolding m_def by linarith
    then have "q = 2 powi (expo x - 52)" by (simp only: q_def)
    also have "\<dots> = 2 powi (expo x) / 2 ^ 52" by (simp add: power_int_diff)
    finally have "q / 2 = 2 powi (expo x) / 2 ^ 53" by simp
    also have "\<dots> \<le> \<bar>x\<bar> / 2 ^ 53" using expo_lower [OF False] by (simp add: divide_right_mono)
    finally show ?thesis by simp
  next
    case False
    then have "m = - 1074" unfolding m_def by linarith
    then have "q = 2 powi (- 1074)" by (simp only: q_def)
    also have "\<dots> = 1 / 2 ^ 1074" by (simp add: power_int_def field_simps)
    finally have "q / 2 = 1 / 2 ^ 1075" by simp
    then show ?thesis by simp
  qed
  with h show ?thesis by linarith
qed

lemma power_int_le_imp:
  assumes "(2::rat) powi e \<le> 2 ^ n"
  shows "e \<le> int n"
proof (rule ccontr)
  assume "\<not> e \<le> int n"
  then have "int n + 1 \<le> e" by simp
  then have "(2::rat) powi (int n + 1) \<le> 2 powi e" by (intro power_int_increasing) auto
  moreover have "(2::rat) powi (int n + 1) = 2 * 2 ^ n"
    by (simp add: power_int_add)
  moreover have "(0::rat) < 2 ^ n" by simp
  ultimately show False using assms by linarith
qed

lemma nearest_of_int:
  assumes "\<bar>k\<bar> \<le> 2 ^ 53"
  shows "nearest (of_int k) = of_int k"
proof (cases "k = 0")
  case True then show ?thesis by (simp add: nearest_def)
next
  case False
  define x :: rat where "x = of_int k"
  have x0: "x \<noteq> 0" using False by (simp add: x_def)
  define m where "m = max (expo x - 52) (- 1074)"
  have "2 powi (expo x) \<le> \<bar>x\<bar>" by (rule expo_lower [OF x0])
  also have "\<bar>x\<bar> = of_int \<bar>k\<bar>" by (simp add: x_def)
  also have "\<dots> \<le> of_int (2 ^ 53)" using assms by (simp only: of_int_le_iff)
  finally have le: "(2::rat) powi (expo x) \<le> 2 ^ 53" by simp
  then have e53: "expo x \<le> 53" using power_int_le_imp [of "expo x" 53] by simp
  have n: "nearest x = of_int (round_even (x / 2 powi m)) * 2 powi m"
    using x0 by (simp add: nearest_def m_def Let_def)
  have "\<exists>j. x / 2 powi m = of_int j"
  proof (cases "m \<le> 0")
    case True
    then have "(2::rat) powi m = 1 / 2 ^ nat (- m)"
      by (cases "m = 0") (simp_all add: power_int_def field_simps)
    then have "x / 2 powi m = of_int (k * 2 ^ nat (- m))" by (simp add: x_def)
    then show ?thesis by blast
  next
    case False
    then have m1: "m = 1" using e53 unfolding m_def by linarith
    then have e: "expo x = 53" using e53 unfolding m_def by linarith
    have "(2::rat) ^ 53 \<le> \<bar>x\<bar>" using expo_lower [OF x0] by (simp add: e)
    then have "(of_int (2 ^ 53) :: rat) \<le> of_int \<bar>k\<bar>" by (simp add: x_def)
    then have "2 ^ 53 \<le> \<bar>k\<bar>" by (simp only: of_int_le_iff)
    with assms have "\<bar>k\<bar> = 2 ^ 53" by simp
    then have "k = 2 ^ 53 \<or> k = - (2 ^ 53)" by linarith
    then have "k = 2 * (k div 2)" by auto
    then have "x = 2 * of_int (k div 2)" unfolding x_def by (metis of_int_mult of_int_numeral)
    then have "x / 2 powi m = of_int (k div 2)" by (simp add: m1)
    then show ?thesis by blast
  qed
  then obtain j where j: "x / 2 powi m = of_int j" ..
  have "nearest x = (x / 2 powi m) * 2 powi m" unfolding n j by simp
  then show ?thesis by (simp add: x_def)
qed

lemma expo_less:
  assumes "x \<noteq> 0" and "\<bar>x\<bar> < 2 ^ n"
  shows "expo x < int n"
proof -
  have "(2::rat) powi (expo x) \<le> 2 ^ n"
    using expo_lower [OF assms(1)] assms(2) by linarith
  then have le: "expo x \<le> int n" by (rule power_int_le_imp)
  have "expo x \<noteq> int n"
  proof
    assume "expo x = int n"
    then have "(2::rat) powi (expo x) = 2 ^ n" by simp
    then show False using expo_lower [OF assms(1)] assms(2) by linarith
  qed
  with le show ?thesis by linarith
qed

lemma fl_small:
  assumes "\<bar>nearest x\<bar> < 2 ^ 1024"
  shows "fl x = Fin (nearest x)"
proof (cases "nearest x = 0")
  case True
  then show ?thesis by (simp add: fl_def)
next
  case False
  have "expo (nearest x) < 1024"
    using expo_less [OF False assms] by simp
  then show ?thesis by (simp add: fl_def Let_def)
qed

lemma fl_of_int:
  assumes "\<bar>k\<bar> \<le> 2 ^ 53"
  shows "fl (of_int k) = Fin (of_int k)"
proof -
  have "\<bar>of_int k :: rat\<bar> = of_int \<bar>k\<bar>" by simp
  also have "\<dots> \<le> of_int (2 ^ 53)" using assms by (simp only: of_int_le_iff)
  finally have "\<bar>of_int k :: rat\<bar> \<le> 2 ^ 53" by simp
  moreover have "(2::rat) ^ 53 < 2 ^ 1024" by simp
  ultimately have "\<bar>nearest (of_int k)\<bar> < 2 ^ 1024"
    unfolding nearest_of_int [OF assms] by linarith
  then have "fl (of_int k) = Fin (nearest (of_int k))" by (rule fl_small)
  then show ?thesis by (simp only: nearest_of_int [OF assms])
qed

lemma fl_not_NaN [simp]: "fl x \<noteq> NaN"
  by (simp add: fl_def Let_def)

lemma fl_Fin:
  assumes "fl x = Fin r"
  shows "r = nearest x" and "\<bar>r\<bar> < 2 ^ 1024"
proof -
  show r: "r = nearest x"
    using assms by (auto simp add: fl_def Let_def split: if_splits)
  show "\<bar>r\<bar> < 2 ^ 1024"
  proof (cases "r = 0")
    case True
    then show ?thesis by simp
  next
    case False
    then have "expo r < 1024"
      using assms r by (auto simp add: fl_def Let_def split: if_splits)
    then have "(2::rat) powi (expo r + 1) \<le> 2 powi 1024"
      by (intro power_int_increasing) auto
    then show ?thesis
      using expo_upper [OF False] by simp
  qed
qed

lemma fl_finite:
  assumes "\<bar>x\<bar> * (1 + 1 / 2 ^ 53) + 1 / 2 ^ 1075 < 2 ^ 1024"
  shows "fl x = Fin (nearest x)"
proof -
  have "\<bar>nearest x\<bar> \<le> \<bar>x\<bar> + \<bar>nearest x - x\<bar>" by linarith
  also have "\<dots> \<le> \<bar>x\<bar> + (\<bar>x\<bar> / 2 ^ 53 + 1 / 2 ^ 1075)" using nearest_error [of x] by linarith
  also have "\<dots> = \<bar>x\<bar> * (1 + 1 / 2 ^ 53) + 1 / 2 ^ 1075" by (simp add: algebra_simps)
  finally have "\<bar>nearest x\<bar> < 2 ^ 1024" using assms by linarith
  then show ?thesis by (rule fl_small)
qed

text \<open>
  Integers up to \<open>2^53\<close> in magnitude are doubles: the literals of the source and the
  small numbers of the examples are what they denote.
\<close>

lemma fl_0 [simp]: "fl 0 = Fin 0"
  using fl_of_int [of 0] by simp

lemma fl_1 [simp]: "fl 1 = Fin 1"
  using fl_of_int [of 1] by simp

lemma fl_numeral [simp]: "(numeral k :: int) \<le> 2 ^ 53 \<Longrightarrow> fl (numeral k) = Fin (numeral k)"
  using fl_of_int [of "numeral k"] by simp

lemma fl_neg_numeral [simp]:
  "(numeral k :: int) \<le> 2 ^ 53 \<Longrightarrow> fl (- numeral k) = Fin (- numeral k)"
  using fl_of_int [of "- numeral k"] by simp

lemma literal_1_1_value: "literal_1_1 = Fin (2476979795053773 / 2251799813685248)"
  unfolding literal_1_1_def by code_simp

text \<open>
  Examples of rounding: \<open>0.1 + 0.2\<close> is not \<open>0.3\<close>, \<open>100 * 1.1\<close> is
  \<open>110.00000000000001\<close>, \<open>29 / 7 * 7\<close> is \<open>29.000000000000004\<close>, and \<open>2^53 + 1\<close> is
  \<open>2^53\<close>.
\<close>

lemma rounding_examples:
  "js_add (fl (1 / 10)) (fl (2 / 10)) = Fin (1351079888211149 / 4503599627370496)"
  "fl (3 / 10) = Fin (5404319552844595 / 18014398509481984)"
  "js_mul (Fin 100) literal_1_1 = Fin (7740561859543041 / 70368744177664)"
  "js_mul (js_div (Fin 29) (Fin 7)) (Fin 7) = Fin (8162774324609025 / 281474976710656)"
  "js_add (Fin (2 ^ 53)) (Fin 1) = Fin (2 ^ 53)"
  unfolding literal_1_1_def by code_simp+

text \<open>
  The quotient of a finite number by a positive count, multiplied by the count again:
  each of the two operations rounds once, and the product differs from the dividend by
  at most three relative errors \<open>2^-53\<close> and the absolute error of the subnormal
  range.
\<close>

lemma quotient_product_error:
  fixes t :: rat and n :: nat
  assumes n: "0 < n"
  shows "\<bar>nearest (nearest (t / of_nat n) * of_nat n) - t\<bar>
           \<le> 3 * \<bar>t\<bar> / 2 ^ 53 + (of_nat n + 1) / 2 ^ 1074"
proof -
  define u :: rat where "u = 1 / 2 ^ 53"
  define h :: rat where "h = 1 / 2 ^ 1075"
  define N :: rat where "N = of_nat n"
  define a where "a = nearest (t / N)"
  define p where "p = nearest (a * N)"
  have u: "0 \<le> u" "u \<le> 1" by (simp_all add: u_def)
  have h: "0 \<le> h" by (simp add: h_def)
  have N: "1 \<le> N" using n by (simp add: N_def)
  have e1: "\<bar>a - t / N\<bar> \<le> \<bar>t / N\<bar> * u + h"
    using nearest_error [of "t / N"] by (simp add: a_def u_def h_def)
  have e2: "\<bar>p - a * N\<bar> \<le> \<bar>a * N\<bar> * u + h"
    using nearest_error [of "a * N"] by (simp add: p_def u_def h_def)
  have "a * N - t = (a - t / N) * N"
    using N by (simp add: field_simps)
  then have "\<bar>a * N - t\<bar> = \<bar>a - t / N\<bar> * N"
    using N by (simp add: abs_mult)
  also have "\<dots> \<le> (\<bar>t / N\<bar> * u + h) * N"
    using e1 N by (intro mult_right_mono) auto
  also have "\<dots> = \<bar>t\<bar> * u + h * N"
    using N by (simp add: field_simps abs_divide)
  finally have d1: "\<bar>a * N - t\<bar> \<le> \<bar>t\<bar> * u + h * N" .
  have aN: "\<bar>a * N\<bar> \<le> \<bar>t\<bar> + (\<bar>t\<bar> * u + h * N)"
    using d1 by linarith
  have nn: "0 \<le> \<bar>t\<bar> * u + h * N"
    using u h N by simp
  have "\<bar>a * N\<bar> * u \<le> (\<bar>t\<bar> + (\<bar>t\<bar> * u + h * N)) * u"
    using aN u by (intro mult_right_mono) auto
  also have "\<dots> = \<bar>t\<bar> * u + (\<bar>t\<bar> * u + h * N) * u"
    by (simp add: algebra_simps)
  also have "\<dots> \<le> \<bar>t\<bar> * u + (\<bar>t\<bar> * u + h * N)"
    using mult_left_le [OF u(2) nn] by linarith
  finally have d2: "\<bar>a * N\<bar> * u \<le> 2 * (\<bar>t\<bar> * u) + h * N"
    by linarith
  have "\<bar>p - t\<bar> \<le> \<bar>p - a * N\<bar> + \<bar>a * N - t\<bar>"
    by linarith
  also have "\<dots> \<le> (2 * (\<bar>t\<bar> * u) + h * N + h) + (\<bar>t\<bar> * u + h * N)"
    using e2 d1 d2 by linarith
  also have "\<dots> = 3 * \<bar>t\<bar> * u + (2 * N + 1) * h"
    by (simp add: algebra_simps)
  also have "\<dots> \<le> 3 * \<bar>t\<bar> * u + (N + 1) * (2 * h)"
    using h by (simp add: algebra_simps)
  also have "2 * h = 1 / 2 ^ 1074"
    by (simp add: h_def)
  finally show ?thesis
    by (simp add: p_def a_def N_def u_def)
qed

text \<open>
  Neither operation overflows when the dividend is at most \<open>2^1023\<close> in magnitude and
  the count is below \<open>2^32\<close>, the bound on the length of an array.
\<close>

lemma quotient_product_finite:
  fixes t :: rat and n :: nat
  assumes n: "0 < n" "n < 2 ^ 32" and t: "\<bar>t\<bar> \<le> 2 ^ 1023"
  shows "fl (t / of_nat n) = Fin (nearest (t / of_nat n))"
    and "fl (nearest (t / of_nat n) * of_nat n) = Fin (nearest (nearest (t / of_nat n) * of_nat n))"
proof -
  define N :: rat where "N = of_nat n"
  define a where "a = nearest (t / N)"
  have "(of_nat n :: rat) < of_nat (2 ^ 32)"
    using n(2) by (simp only: of_nat_less_iff)
  also have "(of_nat (2 ^ 32) :: rat) = 2 ^ 32"
    by (simp only: of_nat_power of_nat_numeral)
  finally have N: "1 \<le> N" "N \<le> 2 ^ 32"
    using n(1) by (simp_all add: N_def)
  have "\<bar>t / N\<bar> = \<bar>t\<bar> / N" using N by (simp add: abs_divide)
  also have "\<dots> \<le> \<bar>t\<bar> / 1" using N by (intro divide_left_mono) auto
  finally have q: "\<bar>t / N\<bar> \<le> 2 ^ 1023" using t by simp
  have "\<bar>t / N\<bar> * (1 + 1 / 2 ^ 53) \<le> 2 ^ 1023 * (1 + 1 / 2 ^ 53)"
    using q by (intro mult_right_mono) auto
  moreover have "(2::rat) ^ 1023 * (1 + 1 / 2 ^ 53) + 1 / 2 ^ 1075 < 2 ^ 1024"
    by simp
  ultimately have "\<bar>t / N\<bar> * (1 + 1 / 2 ^ 53) + 1 / 2 ^ 1075 < 2 ^ 1024"
    by linarith
  then show "fl (t / of_nat n) = Fin (nearest (t / of_nat n))"
    unfolding N_def by (rule fl_finite)
  have "a * N - t = (a - t / N) * N"
    using N by (simp add: field_simps)
  then have "\<bar>a * N - t\<bar> = \<bar>a - t / N\<bar> * N"
    using N by (simp add: abs_mult)
  also have "\<dots> \<le> (\<bar>t / N\<bar> / 2 ^ 53 + 1 / 2 ^ 1075) * N"
    unfolding a_def using nearest_error [of "t / N"] N by (intro mult_right_mono) auto
  also have "\<dots> = \<bar>t\<bar> / 2 ^ 53 + N / 2 ^ 1075"
    using N by (simp add: field_simps abs_divide)
  also have "\<dots> \<le> 2 ^ 1023 / 2 ^ 53 + 2 ^ 32 / 2 ^ 1075"
    using t N by (intro add_mono divide_right_mono) auto
  finally have "\<bar>a * N\<bar> \<le> \<bar>t\<bar> + (2 ^ 1023 / 2 ^ 53 + 2 ^ 32 / 2 ^ 1075)"
    by linarith
  then have b: "\<bar>a * N\<bar> \<le> 2 ^ 1023 + (2 ^ 1023 / 2 ^ 53 + 2 ^ 32 / 2 ^ 1075)"
    using t by linarith
  have "\<bar>a * N\<bar> * (1 + 1 / 2 ^ 53)
          \<le> (2 ^ 1023 + (2 ^ 1023 / 2 ^ 53 + 2 ^ 32 / 2 ^ 1075)) * (1 + 1 / 2 ^ 53)"
    using b by (intro mult_right_mono) auto
  moreover have "((2::rat) ^ 1023 + (2 ^ 1023 / 2 ^ 53 + 2 ^ 32 / 2 ^ 1075)) * (1 + 1 / 2 ^ 53)
                   + 1 / 2 ^ 1075 < 2 ^ 1024"
    by simp
  ultimately have "\<bar>a * N\<bar> * (1 + 1 / 2 ^ 53) + 1 / 2 ^ 1075 < 2 ^ 1024"
    by linarith
  then have "fl (a * N) = Fin (nearest (a * N))"
    by (rule fl_finite)
  then show "fl (nearest (t / of_nat n) * of_nat n)
               = Fin (nearest (nearest (t / of_nat n) * of_nat n))"
    by (simp add: a_def N_def)
qed

section \<open>The empty ledger\<close>

text \<open>
  Claim C5. The recalculation of the empty ledger returns no daily and no weekly
  element, the one prediction with \<open>predictedValue\<close> 850 and \<open>confidence\<close> 85, the one
  report with the defaults (revenue 0, orders 0, average 0, top shop \<open>N/A\<close>, the four
  payment keys at 0; its \<open>date\<close> is the date part of the clock), and no notification.
\<close>

theorem recalculate_empty_ledger:
  "recalculateAnalytics env clock [] =
     Inr \<lparr>dailySales = [], weeklySales = [],
          predictions =
            [\<lparr>p_id = 1, p_type = ''revenue'', timeframe = ''tomorrow'',
              predictedValue = Fin 850, confidence = 85,
              factors = [''historical_trend'', ''day_of_week'', ''seasonal_pattern'']\<rparr>],
          reports =
            [\<lparr>r_id = 1, r_type = ''comprehensive'',
              r_date = takeWhile (\<lambda>ch. ch \<noteq> CHR ''T'') (clock 0),
              r_totalRevenue = Fin 0, r_totalOrders = 0, r_averageOrderValue = Fin 0,
              r_topShop = ''N/A'',
              r_paymentBreakdown =
                [(''Balance'', Fin 0), (''Cash'', Fin 0), (''Card'', Fin 0), (''Bank'', Fin 0)]\<rparr>],
          notifications = []\<rparr>"
  by (simp add: recalculateAnalytics_def dict_entries_def make_prediction_def make_report_def
        make_notifications_def payment_init_def sum_amounts_def)

theorem recalculate_empty_ledger_witness:
  "recalculateAnalytics example_env example_clock [] =
     Inr \<lparr>dailySales = [], weeklySales = [],
          predictions =
            [\<lparr>p_id = 1, p_type = ''revenue'', timeframe = ''tomorrow'',
              predictedValue = Fin 850, confidence = 85,
              factors = [''historical_trend'', ''day_of_week'', ''seasonal_pattern'']\<rparr>],
          reports =
            [\<lparr>r_id = 1, r_type = ''comprehensive'',
              r_date = ''2024-02-03'',
              r_totalRevenue = Fin 0, r_totalOrders = 0, r_averageOrderValue = Fin 0,
              r_topShop = ''N/A'',
              r_paymentBreakdown =
                [(''Balance'', Fin 0), (''Cash'', Fin 0), (''Card'', Fin 0), (''Bank'', Fin 0)]\<rparr>],
          notifications = []\<rparr>"
  using recalculate_empty_ledger [of example_env example_clock]
  by (simp add: example_clock_def)

section \<open>The week key\<close>

text \<open>
  The calendar functions on known days: the epoch is Thursday 1 January 1970, day
  19723 is Monday 1 January 2024, and 29 February exists in 2024 and 2000 and not in
  2100.
\<close>

lemma calendar_examples:
  "civil_from_days 0 = (1970, 1, 1)" "WeekDay 0 = 4"
  "civil_from_days 19723 = (2024, 1, 1)" "WeekDay 1704067200000 = 1"
  "days_from_civil 2024 1 1 = 19723"
  "civil_from_days (days_from_civil 2024 3 1 - 1) = (2024, 2, 29)"
  "civil_from_days (days_from_civil 2000 3 1 - 1) = (2000, 2, 29)"
  "civil_from_days (days_from_civil 2100 3 1 - 1) = (2100, 2, 28)"
  "civil_from_days (- 1) = (1969, 12, 31)"
  by code_simp+

text \<open>
  The week keys of some days given in UTC: Friday 1 January 2021 belongs to week 53 of
  2020, and Sunday 31 December 2023 to week 52 of 2023.
\<close>

lemma week_key_examples:
  "week_of_utc_date (Date_UTC 2021 0 1) = ''2020-W53''"
  "week_of_utc_date (Date_UTC 2023 11 31) = ''2023-W52''"
  "week_of_utc_date (Date_UTC 2024 11 30) = ''2025-W1''"
  "week_of_utc_date None = ''NaN-WNaN''"
  by code_simp+

lemma week_of_2024_01_01: "week_of_utc_date (Date_UTC 2024 0 1) = ''2024-W1''"
  by code_simp

text \<open>
  Claim C9. For a date whose local calendar date is 1 January 2024 (a Monday),
  \<open>getWeekNumber\<close> returns \<open>2024-W1\<close>.
\<close>

theorem week_key_2024_01_01:
  assumes "YearFromTime (t + localTZA env t) = 2024"
    and "MonthFromTime (t + localTZA env t) = 0"
    and "DateFromTime (t + localTZA env t) = 1"
  shows "getWeekNumber env (Some t) = ''2024-W1''"
  using assms by (simp add: getWeekNumber_def week_of_2024_01_01)

lemma example_local_date:
  "YearFromTime (1704058200000 + 10800000) = 2024"
  "MonthFromTime (1704058200000 + 10800000) = 0"
  "DateFromTime (1704058200000 + 10800000) = 1"
  by code_simp+

theorem week_key_2024_01_01_witness:
  "YearFromTime (1704058200000 + localTZA example_env 1704058200000) = 2024
   \<and> MonthFromTime (1704058200000 + localTZA example_env 1704058200000) = 0
   \<and> DateFromTime (1704058200000 + localTZA example_env 1704058200000) = 1
   \<and> getWeekNumber example_env (Some 1704058200000) = ''2024-W1''"
  using week_key_2024_01_01 [of 1704058200000 example_env] example_local_date
  by (simp add: example_env_def)

text \<open>
  The function reads the local calendar date of its argument. Midnight UTC of
  1 January 2024 is still 31 December 2023 five hours behind UTC, and the key is that
  of the earlier day.
\<close>

lemma week_key_behind_utc:
  "getWeekNumber (example_env\<lparr>localTZA := (\<lambda>_. - 18000000)\<rparr>) (Some 1704067200000) = ''2023-W52''"
  by (simp add: getWeekNumber_def example_env_def; code_simp)

section \<open>Creating an order\<close>

lemma map_err_if:
  assumes "\<And>x. f x = (if P x then Inr (g x) else Inl TypeError)"
  shows "map_err f xs = (if list_all P xs then Inr (map g xs) else Inl TypeError)"
  by (induction xs) (simp_all add: assms)

lemma foldl_err_if:
  assumes "\<And>a x. f a x = (if P x then Inr (g a x) else Inl TypeError)"
  shows "foldl_err f a xs = (if list_all P xs then Inr (foldl g a xs) else Inl TypeError)"
  by (induction xs arbitrary: a) (simp_all add: assms)

lemma max_id_eq:
  "max_id env orders =
     (if list_all (\<lambda>order. converts (order ''id'')) orders
      then Inr (Math_max (id_numbers env orders @ [Fin 0])) else Inl TypeError)"
proof -
  have "map_err (\<lambda>order. ToNumber env (order ''id'')) orders =
          (if list_all (\<lambda>order. converts (order ''id'')) orders
           then Inr (map (\<lambda>order. to_number env (order ''id'')) orders) else Inl TypeError)"
    by (rule map_err_if) (simp add: ToNumber_def)
  then show ?thesis
    by (simp add: max_id_def id_numbers_def)
qed

lemma js_max2_int: "js_max2 (Fin (of_int a)) (Fin (of_int b)) = Fin (of_int (max a b))"
  by (simp add: js_max2_def max_def)

lemma foldl_js_max2_int:
  "foldl js_max2 (Fin (of_int a)) (map (\<lambda>k. Fin (of_int k)) ks)
     = Fin (of_int (Max (insert a (set ks))))"
proof (induction ks arbitrary: a)
  case Nil
  then show ?case by simp
next
  case (Cons k ks)
  have "Max (insert (max a k) (set ks)) = Max (insert a (insert k (set ks)))"
  proof (cases "set ks = {}")
    case True
    then show ?thesis by (simp add: max.commute)
  next
    case False
    then show ?thesis by (simp add: max.assoc)
  qed
  then show ?case using Cons by (simp add: js_max2_int)
qed

lemma Math_max_int:
  "Math_max (map (\<lambda>k. Fin (of_int k)) ks @ [Fin 0]) = Fin (of_int (Max (insert 0 (set ks))))"
proof (cases ks)
  case Nil
  then show ?thesis by (simp add: Math_max_def js_max2_def)
next
  case (Cons k ks')
  have "js_max2 NInf (Fin (of_int k)) = Fin (of_int k)"
    by (simp add: js_max2_def)
  then have "Math_max (map (\<lambda>k. Fin (of_int k)) ks @ [Fin 0])
               = foldl js_max2 (Fin (of_int k)) (map (\<lambda>k. Fin (of_int k)) (ks' @ [0]))"
    using Cons by (simp add: Math_max_def)
  also have "\<dots> = Fin (of_int (Max (insert k (set (ks' @ [0])))))"
    by (rule foldl_js_max2_int)
  finally show ?thesis
    using Cons by (simp add: insert_commute)
qed

text \<open>
  With stored ids that are integers below \<open>2^53\<close> in magnitude the next id is one more
  than the greatest of them and 0, without rounding.
\<close>

lemma next_id_integers:
  assumes ids: "map (\<lambda>order. order ''id'') orders = map (\<lambda>k. Some (JNum (Fin (of_int k)))) ks"
    and small: "list_all (\<lambda>k. \<bar>k\<bar> < 2 ^ 53) ks"
  shows "next_id env orders = Fin (of_int (Max (insert 0 (set ks)) + 1))"
proof -
  let ?m = "Max (insert 0 (set ks))"
  have "id_numbers env orders = map (to_number env) (map (\<lambda>order. order ''id'') orders)"
    by (simp add: id_numbers_def)
  also have "\<dots> = map (\<lambda>k. Fin (of_int k)) ks"
    unfolding ids by simp
  finally have m: "Math_max (id_numbers env orders @ [Fin 0]) = Fin (of_int ?m)"
    by (simp add: Math_max_int)
  have "?m \<in> insert 0 (set ks)"
    by (rule Max_in) simp_all
  then have "\<bar>?m\<bar> < 2 ^ 53"
    using small by (auto simp: list_all_iff)
  moreover have "0 \<le> ?m"
    by (rule Max_ge) simp_all
  ultimately have "\<bar>?m + 1\<bar> \<le> 2 ^ 53"
    by linarith
  then have "fl (of_int (?m + 1)) = Fin (of_int (?m + 1))"
    by (rule fl_of_int)
  then show ?thesis
    by (simp add: next_id_def m)
qed

lemma foldl_js_max2_NaN: "a = NaN \<or> NaN \<in> set xs \<Longrightarrow> foldl js_max2 a xs = NaN"
  by (induction xs arbitrary: a) (auto simp: js_max2_def)

lemma next_id_NaN:
  assumes "NaN \<in> set (id_numbers env orders)"
  shows "next_id env orders = NaN"
proof -
  have "foldl js_max2 NInf (id_numbers env orders @ [Fin 0]) = NaN"
    by (rule foldl_js_max2_NaN) (use assms in simp)
  then show ?thesis
    by (simp add: next_id_def Math_max_def)
qed

lemma next_id_empty: "next_id env [] = Fin 1"
  by (simp add: next_id_def id_numbers_def Math_max_def js_max2_def)

text \<open>
  Claim C10, as the code has it. A create request on a ledger whose stored ids can all
  be converted to numbers appends one order; otherwise \<open>Math.max\<close> throws and nothing
  is appended. The appended order has status \<open>Pending\<close>, \<open>deliveredAt\<close> \<open>null\<close>, empty
  \<open>deliveryNotes\<close> and \<open>basketNo\<close> equal to the next id, whatever the request body
  holds. Its \<open>id\<close> is the next id only when the body has no \<open>id\<close> of its own: the body is
  spread after the \<open>id\<close> property, so an \<open>id\<close> in the body is kept. The next id is
  \<open>Math.max(...ids, 0) + 1\<close> as the doubles compute it: one plus the greatest of 0 and
  the stored ids when these are integers below \<open>2^53\<close> in magnitude, and \<open>NaN\<close> when a
  stored \<open>id\<close> is missing or converts to \<open>NaN\<close>.
\<close>

theorem post_order_appended:
  "post_order env clock body orders
     = (if list_all (\<lambda>order. converts (order ''id'')) orders
        then Inr (orders @ [new_order env clock body orders]) else Inl TypeError)
   \<and> new_order env clock body orders ''status'' = Some (JStr ''Pending'')
   \<and> new_order env clock body orders ''deliveredAt'' = Some JNull
   \<and> new_order env clock body orders ''deliveryNotes'' = Some (JStr [])
   \<and> new_order env clock body orders ''basketNo'' = Some (JNum (next_id env orders))
   \<and> new_order env clock body orders ''id''
       = (case body ''id'' of None \<Rightarrow> Some (JNum (next_id env orders)) | Some v \<Rightarrow> Some v)
   \<and> (map (\<lambda>order. order ''id'') orders = map (\<lambda>k. Some (JNum (Fin (of_int k)))) ks
        \<and> list_all (\<lambda>k. \<bar>k\<bar> < 2 ^ 53) ks
        \<longrightarrow> next_id env orders = Fin (of_int (Max (insert 0 (set ks)) + 1)))
   \<and> (NaN \<in> set (id_numbers env orders) \<longrightarrow> next_id env orders = NaN)"
proof (intro conjI impI)
  show "post_order env clock body orders
          = (if list_all (\<lambda>order. converts (order ''id'')) orders
             then Inr (orders @ [new_order env clock body orders]) else Inl TypeError)"
    by (simp add: post_order_def max_id_eq new_order_def)
  show "new_order env clock body orders ''status'' = Some (JStr ''Pending'')"
    by (simp add: new_order_def create_order_def)
  show "new_order env clock body orders ''deliveredAt'' = Some JNull"
    by (simp add: new_order_def create_order_def)
  show "new_order env clock body orders ''deliveryNotes'' = Some (JStr [])"
    by (simp add: new_order_def create_order_def)
  show "new_order env clock body orders ''basketNo'' = Some (JNum (next_id env orders))"
    by (simp add: new_order_def create_order_def next_id_def)
  show "new_order env clock body orders ''id''
          = (case body ''id'' of None \<Rightarrow> Some (JNum (next_id env orders)) | Some v \<Rightarrow> Some v)"
    by (simp add: new_order_def create_order_def next_id_def map_add_def split: option.splits)
  show "next_id env orders = Fin (of_int (Max (insert 0 (set ks)) + 1))"
    if "map (\<lambda>order. order ''id'') orders = map (\<lambda>k. Some (JNum (Fin (of_int k)))) ks
        \<and> list_all (\<lambda>k. \<bar>k\<bar> < 2 ^ 53) ks"
    using that next_id_integers by blast
  show "next_id env orders = NaN" if "NaN \<in> set (id_numbers env orders)"
    using that by (rule next_id_NaN)
qed

lemma pending_order_id: "pending_order ''id'' = Some (JNum (Fin 2))"
  by (simp add: pending_order_def)

lemma delivered_order_id: "delivered_order ''id'' = Some (JNum (Fin 1))"
  by (simp add: delivered_order_def)

theorem post_order_appended_witness:
  "map (\<lambda>order. order ''id'') [delivered_order, pending_order]
     = map (\<lambda>k. Some (JNum (Fin (of_int k)))) [1, 2]
   \<and> list_all (\<lambda>k. \<bar>k\<bar> < 2 ^ 53) [1, 2 :: int]
   \<and> next_id example_env [delivered_order, pending_order] = Fin 3
   \<and> post_order example_env example_clock process_body [delivered_order, pending_order]
       = Inr [delivered_order, pending_order,
              new_order example_env example_clock process_body [delivered_order, pending_order]]
   \<and> new_order example_env example_clock process_body [delivered_order, pending_order] ''id''
       = Some (JNum (Fin 3))
   \<and> new_order example_env example_clock process_body [delivered_order, pending_order] ''basketNo''
       = Some (JNum (Fin 3))
   \<and> new_order example_env example_clock process_body [delivered_order, pending_order] ''status''
       = Some (JStr ''Pending'')
   \<and> NaN \<in> set (id_numbers example_env [process_body])
   \<and> next_id example_env [process_body] = NaN"
  using post_order_appended [of example_env example_clock process_body
      "[delivered_order, pending_order]" "[1, 2]"]
    post_order_appended [of example_env example_clock process_body "[process_body]" "[]"]
  by (simp add: pending_order_id delivered_order_id process_body_def converts_def
        id_numbers_def)

text \<open>
  The claim as the specification words it fails: on the empty ledger the next id is 1,
  and a request body with \<open>id\<close> 7 creates an order with \<open>id\<close> 7 (and \<open>basketNo\<close> 1).
\<close>

theorem post_order_body_id_counterexample:
  "next_id example_env [] = Fin 1
   \<and> post_order example_env example_clock create_body []
       = Inr [new_order example_env example_clock create_body []]
   \<and> new_order example_env example_clock create_body [] ''id'' = Some (JNum (Fin 7))
   \<and> new_order example_env example_clock create_body [] ''basketNo'' = Some (JNum (Fin 1))"
  by (simp add: next_id_empty post_order_def max_id_eq new_order_def id_numbers_def
        Math_max_def js_max2_def create_order_def create_body_def map_add_def)

section \<open>Updating an order\<close>

lemma findIndex_Some:
  "findIndex P xs = Some i \<Longrightarrow> i < length xs \<and> P (xs ! i)"
proof (induction xs arbitrary: i)
  case Nil
  then show ?case by simp
next
  case (Cons x xs)
  then show ?case by (cases "P x") auto
qed

lemma put_order_Some:
  assumes "put_order clock param body orders = Some orders'"
  shows "\<exists>i < length orders.
           (orders ! i) ''id'' = Some (JNum (parseInt param))
           \<and> orders' = orders[i := update_order clock body (orders ! i)]"
  using assms
  by (auto simp: put_order_def Let_def split: option.splits dest: findIndex_Some)

lemma update_order_fields:
  "update_order clock body order ''deliveryNotes''
     = (if body ''status'' = Some (JStr ''Delivered'')
        then Some (js_or (body ''deliveryNotes'') (JStr []))
        else (order ++ body) ''deliveryNotes'')"
  "update_order clock body order ''deliveredAt''
     = (if body ''status'' = Some (JStr ''Delivered'')
        then Some (js_or (body ''deliveredAt'') (JStr (clock 0)))
        else (order ++ body) ''deliveredAt'')"
  by (simp_all add: update_order_def map_add_def)

text \<open>
  Claim C4, as the code has it. An update that finds its order replaces it by the
  updated order, and the guard of the stamping reads the request alone: when the status
  in the request body is \<open>Delivered\<close>, the update sets \<open>deliveryNotes\<close> to the notes of
  the body, or to the empty string, and \<open>deliveredAt\<close> to the time of the body, or to
  the clock, whatever status and whatever values the stored order has; otherwise the
  two fields are those of the body where it has them and those of the stored order
  where it has not.
\<close>

theorem update_order_stamping:
  assumes "put_order clock param body orders = Some orders'"
  shows "\<exists>i<length orders.
           (orders ! i) ''id'' = Some (JNum (parseInt param))
           \<and> orders' = orders[i := update_order clock body (orders ! i)]
           \<and> (body ''status'' = Some (JStr ''Delivered'') \<longrightarrow>
                (orders' ! i) ''deliveryNotes''
                  = Some (js_or (body ''deliveryNotes'') (JStr []))
                \<and> (orders' ! i) ''deliveredAt''
                  = Some (js_or (body ''deliveredAt'') (JStr (clock 0))))
           \<and> (body ''status'' \<noteq> Some (JStr ''Delivered'') \<longrightarrow>
                (orders' ! i) ''deliveryNotes'' = (orders ! i ++ body) ''deliveryNotes''
                \<and> (orders' ! i) ''deliveredAt'' = (orders ! i ++ body) ''deliveredAt'')"
proof -
  obtain i where i: "i < length orders"
    and found: "(orders ! i) ''id'' = Some (JNum (parseInt param))"
    and upd: "orders' = orders[i := update_order clock body (orders ! i)]"
    using put_order_Some [OF assms] by blast
  have "orders' ! i = update_order clock body (orders ! i)"
    using i by (simp add: upd)
  then show ?thesis
    using i found upd by (auto simp: update_order_fields)
qed

lemma example_params: "parseInt ''1'' = Fin 1" "parseInt ''2'' = Fin 2"
  by code_simp+

lemma put_order_pending:
  "put_order example_clock ''2'' body [delivered_order, pending_order]
     = Some [delivered_order, update_order example_clock body pending_order]"
  by (simp add: put_order_def example_params delivered_order_id pending_order_id)

theorem update_order_stamping_witness:
  "put_order example_clock ''2'' delivery_body [delivered_order, pending_order]
     = Some [delivered_order, update_order example_clock delivery_body pending_order]
   \<and> delivery_body ''status'' = Some (JStr ''Delivered'')
   \<and> update_order example_clock delivery_body pending_order ''deliveryNotes''
       = Some (JStr ''handed over'')
   \<and> update_order example_clock delivery_body pending_order ''deliveredAt''
       = Some (JStr ''2024-02-03T08:15:00.000Z'')
   \<and> put_order example_clock ''2'' process_body [delivered_order, pending_order]
     = Some [delivered_order, update_order example_clock process_body pending_order]
   \<and> process_body ''status'' \<noteq> Some (JStr ''Delivered'')
   \<and> update_order example_clock process_body pending_order ''deliveryNotes'' = Some (JStr [])
   \<and> update_order example_clock process_body pending_order ''deliveredAt'' = Some JNull"
  using update_order_stamping [OF put_order_pending, of delivery_body]
    update_order_stamping [OF put_order_pending, of process_body]
  by (simp add: put_order_pending update_order_fields)
     (simp add: delivery_body_def process_body_def pending_order_def example_clock_def
        map_add_def)

text \<open>
  The claim as the specification words it fails: an order that is already \<open>Delivered\<close>,
  with a delivery time and notes, loses both when a request sends the status
  \<open>Delivered\<close> again. The transition is not from \<open>Pending\<close> or \<open>In Process\<close>, and the
  fields were not absent.
\<close>

theorem update_order_restamps_counterexample:
  "delivered_order ''status'' = Some (JStr ''Delivered'')
   \<and> delivered_order ''deliveredAt'' = Some (JStr ''2024-01-02T12:00:00.000Z'')
   \<and> delivered_order ''deliveryNotes'' = Some (JStr ''left with neighbour'')
   \<and> put_order example_clock ''1'' delivered_body [delivered_order]
       = Some [update_order example_clock delivered_body delivered_order]
   \<and> update_order example_clock delivered_body delivered_order ''deliveredAt''
       = Some (JStr ''2024-02-03T08:15:00.000Z'')
   \<and> update_order example_clock delivered_body delivered_order ''deliveryNotes''
       = Some (JStr [])"
  by (simp add: put_order_def example_params delivered_order_id update_order_fields)
     (simp add: delivered_body_def delivered_order_def example_clock_def)

section \<open>Bucketing groups the ledger by key\<close>

lemma map_of_dict_push:
  "map_of (dict_push k x d) =
     (map_of d)(k \<mapsto> (case map_of d k of None \<Rightarrow> [x] | Some xs \<Rightarrow> xs @ [x]))"
  by (induction d) (auto simp: fun_eq_iff)

lemma keys_dict_push:
  "map fst (dict_push k x d) = (if k \<in> set (map fst d) then map fst d else map fst d @ [k])"
  by (induction d) force+

lemma distinct_dict_push: "distinct (map fst d) \<Longrightarrow> distinct (map fst (dict_push k x d))"
  by (simp add: keys_dict_push)

lemma dict_push_not_Nil: "dict_push k x d \<noteq> []"
  by (cases d) (auto split: if_splits)

lemma members_snoc:
  "members f (xs @ [x]) k = (if f x = Some k then members f xs k @ [x] else members f xs k)"
  by (simp add: members_def)

text \<open>The dictionary of the groups of a list: a key is present when it has a member.\<close>

lemma push_all_grouping:
  assumes "distinct (map fst d)"
    and "\<And>k. map_of d k = (if members f seen k = [] then None else Some (members f seen k))"
  shows "distinct (map fst (push_all f xs d))
         \<and> (\<forall>k. map_of (push_all f xs d) k
                  = (if members f (seen @ xs) k = [] then None
                     else Some (members f (seen @ xs) k)))"
  using assms
proof (induction xs arbitrary: d seen)
  case Nil
  then show ?case by simp
next
  case (Cons x xs)
  let ?d = "case f x of None \<Rightarrow> d | Some k \<Rightarrow> dict_push k x d"
  have dist: "distinct (map fst ?d)"
    using Cons.prems(1) by (simp add: distinct_dict_push split: option.splits)
  have look: "map_of ?d k
                = (if members f (seen @ [x]) k = [] then None
                   else Some (members f (seen @ [x]) k))" for k
    using Cons.prems(2) by (cases "f x") (auto simp: map_of_dict_push members_snoc)
  have "distinct (map fst (push_all f xs ?d))
         \<and> (\<forall>k. map_of (push_all f xs ?d) k
                  = (if members f ((seen @ [x]) @ xs) k = [] then None
                     else Some (members f ((seen @ [x]) @ xs) k)))"
    using dist look by (rule Cons.IH)
  then show ?case by simp
qed

lemma push_all_entries:
  "(k, os) \<in> set (push_all f xs []) \<longleftrightarrow> os = members f xs k \<and> os \<noteq> []"
proof -
  have g: "distinct (map fst (push_all f xs []))"
          "\<And>k. map_of (push_all f xs [] :: 'a list dict) k
                  = (if members f xs k = [] then None else Some (members f xs k))"
    using push_all_grouping [of "[]" f "[]" xs] by (simp_all add: members_def)
  have "(k, os) \<in> set (push_all f xs []) \<longleftrightarrow> map_of (push_all f xs []) k = Some os"
    using g(1) by (metis map_of_eq_Some_iff)
  then show ?thesis
    by (auto simp: g(2))
qed

lemma push_all_Nil_iff: "push_all f xs [] = [] \<longleftrightarrow> (\<forall>x\<in>set xs. f x = None)"
proof (induction xs rule: rev_induct)
  case Nil
  then show ?case by simp
next
  case (snoc x xs)
  have app: "push_all f (ys @ [y]) d = (case f y of None \<Rightarrow> push_all f ys d | Some k \<Rightarrow> dict_push k y (push_all f ys d))" for ys y d
    by (induction ys arbitrary: d) (auto split: option.splits)
  show ?case
    using snoc by (auto simp: app dict_push_not_Nil split: option.splits)
qed

lemma set_dict_entries: "set (dict_entries d) = set d"
  by (auto simp: dict_entries_def)

lemma dict_entries_Nil_iff: "dict_entries d = [] \<longleftrightarrow> d = []"
  by (metis set_dict_entries set_empty)

lemma group_orders_groupable:
  assumes "list_all groupable orders"
  shows "group_orders env orders (bd, bw)
           = Inr (push_all date_of orders bd, push_all (week_of env) orders bw)"
  using assms
proof (induction orders arbitrary: bd bw)
  case Nil
  then show ?case by simp
next
  case (Cons order orders)
  then show ?case
    by (auto simp: groupable_def date_of_def week_of_def Let_def
        split: option.splits jsval.splits)
qed

lemma group_orders_not_groupable:
  assumes "\<not> list_all groupable orders"
  shows "group_orders env orders (bd, bw) = Inl TypeError"
  using assms
proof (induction orders arbitrary: bd bw)
  case Nil
  then show ?case by simp
next
  case (Cons order orders)
  then show ?case
    by (auto simp: groupable_def Let_def split: option.splits jsval.splits)
qed

section \<open>When a recalculation returns\<close>

text \<open>
  Every step of the aggregation throws exactly when one of its conversions does, and
  computes the value of the step otherwise.
\<close>

lemma amount_eq:
  "amount env order = (if amount_ok order then Inr (amount_of env order) else Inl TypeError)"
  by (simp add: amount_def amount_ok_def amount_of_def parseFloat_def)

lemma sum_amounts_eq:
  "sum_amounts env os = (if list_all amount_ok os then Inr (sum_of env os) else Inl TypeError)"
  unfolding sum_amounts_def sum_of_def
  by (rule foldl_err_if) (simp add: amount_eq)

lemma payment_step_eq:
  "payment_step env breakdown order =
     (if amount_ok order \<and> \<not> string_throws (method_of order)
      then Inr (payment_step_of env breakdown order) else Inl TypeError)"
  by (auto simp: payment_step_def payment_step_of_def amount_eq method_of_def ToString_def
      converts_def to_string_def Let_def)

lemma payment_breakdown_eq:
  "payment_breakdown env os =
     (if list_all (\<lambda>order. amount_ok order \<and> \<not> string_throws (method_of order)) os
      then Inr (payment_breakdown_of env os) else Inl TypeError)"
  unfolding payment_breakdown_def payment_breakdown_of_def
  by (rule foldl_err_if) (rule payment_step_eq)

lemma shop_step_eq:
  "shop_step env shopRevenue order =
     (if converts (order ''shopName'') \<and> amount_ok order
      then Inr (shop_step_of env shopRevenue order) else Inl TypeError)"
  by (simp add: shop_step_def shop_step_of_def amount_eq ToString_def shop_of_def)

lemma shop_revenue_eq:
  "shop_revenue env os =
     (if list_all (\<lambda>order. converts (order ''shopName'') \<and> amount_ok order) os
      then Inr (shop_revenue_of env os) else Inl TypeError)"
  unfolding shop_revenue_def shop_revenue_of_def
  by (rule foldl_err_if) (rule shop_step_eq)

lemma bucket_eq:
  "bucket env i k os =
     (if list_all order_ok os then Inr (bucket_of env i k os) else Inl TypeError)"
  by (auto simp: bucket_def bucket_of_def sum_amounts_eq payment_breakdown_eq shop_revenue_eq
      order_ok_def list_all_iff)

lemma daily_sale_eq:
  "daily_sale env e =
     (if list_all order_ok (snd e) then Inr (daily_sale_of env e) else Inl TypeError)"
  by (simp add: daily_sale_def daily_sale_of_def bucket_eq)

lemma weekly_sale_eq:
  "weekly_sale env e =
     (if list_all order_ok (snd e) then Inr (weekly_sale_of env e) else Inl TypeError)"
  by (simp add: weekly_sale_def weekly_sale_of_def bucket_eq)

lemma make_notifications_eq:
  "make_notifications env clock orders =
     (if notification_ok orders then Inr (notifications_of env clock orders) else Inl TypeError)"
  by (simp add: make_notifications_def notification_ok_def notifications_of_def ToString_def
      Let_def)

text \<open>The orders of the buckets are the orders of the ledger that have a key.\<close>

lemma entries_all:
  "list_all (\<lambda>e. list_all P (snd e)) (dict_entries (push_all f xs []))
     \<longleftrightarrow> list_all P (filter (\<lambda>x. f x \<noteq> None) xs)"
proof -
  have "(\<forall>e\<in>set (push_all f xs []). \<forall>x\<in>set (snd e). P x)
          \<longleftrightarrow> (\<forall>x\<in>set xs. f x \<noteq> None \<longrightarrow> P x)"
  proof (intro iffI ballI impI)
    fix x assume a: "\<forall>e\<in>set (push_all f xs []). \<forall>x\<in>set (snd e). P x"
      and x: "x \<in> set xs" "f x \<noteq> None"
    then obtain k where k: "f x = Some k" by auto
    then have m: "x \<in> set (members f xs k)"
      using x by (simp add: members_def)
    then have "(k, members f xs k) \<in> set (push_all f xs [])"
      by (auto simp: push_all_entries)
    then show "P x"
      using a m by force
  next
    fix e x assume a: "\<forall>x\<in>set xs. f x \<noteq> None \<longrightarrow> P x"
      and e: "e \<in> set (push_all f xs [])" and x: "x \<in> set (snd e)"
    have "(fst e, snd e) \<in> set (push_all f xs [])"
      using e by simp
    then have "snd e = members f xs (fst e)"
      by (simp only: push_all_entries)
    then have "x \<in> set xs" "f x = Some (fst e)"
      using x by (simp_all add: members_def)
    then show "P x"
      using a by simp
  qed
  then show ?thesis
    by (auto simp: list_all_iff set_dict_entries)
qed

lemma week_of_None: "week_of env order = None \<longleftrightarrow> date_of order = None"
  by (simp add: week_of_def date_of_def split: option.splits jsval.splits)

text \<open>
  The recalculation returns exactly for the ledgers that the grouping loop can process
  and whose conversions succeed, and throws a \<open>TypeError\<close> for every other ledger.
\<close>

lemma recalculate_eq:
  "recalculateAnalytics env clock orders =
     (if recalculable orders then Inr (analytics_of env clock orders) else Inl TypeError)"
proof (cases "list_all groupable orders")
  case False
  then show ?thesis
    by (simp add: recalculateAnalytics_def group_orders_not_groupable recalculable_def)
next
  case True
  have d: "map_err (daily_sale env) (dict_entries (push_all date_of orders [])) =
             (if list_all order_ok (filter (\<lambda>order. date_of order \<noteq> None) orders)
              then Inr (map (daily_sale_of env) (dict_entries (push_all date_of orders [])))
              else Inl TypeError)"
    unfolding entries_all [symmetric] by (rule map_err_if) (rule daily_sale_eq)
  have w: "map_err (weekly_sale env) (dict_entries (push_all (week_of env) orders [])) =
             (if list_all order_ok (filter (\<lambda>order. date_of order \<noteq> None) orders)
              then Inr (map (weekly_sale_of env) (dict_entries (push_all (week_of env) orders [])))
              else Inl TypeError)"
    unfolding week_of_None [of env, symmetric] entries_all [symmetric]
    by (rule map_err_if) (rule weekly_sale_eq)
  show ?thesis
    by (simp add: recalculateAnalytics_def group_orders_groupable [OF True] d w
        make_notifications_eq sum_amounts_eq recalculable_def True analytics_of_def Let_def)
qed

lemma recalculate_Inr:
  assumes "recalculateAnalytics env clock orders = Inr r"
  shows "recalculable orders"
    and "dailySales r = map (daily_sale_of env) (dict_entries (push_all date_of orders []))"
    and "weeklySales r = map (weekly_sale_of env) (dict_entries (push_all (week_of env) orders []))"
    and "predictions r = [make_prediction (dailySales r)]"
    and "reports r = [make_report clock (weeklySales r)]"
    and "notifications r = notifications_of env clock orders"
proof -
  show c: "recalculable orders"
    using assms by (cases "recalculable orders") (simp_all add: recalculate_eq)
  then have "r = analytics_of env clock orders"
    using assms by (simp add: recalculate_eq)
  then show "dailySales r = map (daily_sale_of env) (dict_entries (push_all date_of orders []))"
    and "weeklySales r = map (weekly_sale_of env) (dict_entries (push_all (week_of env) orders []))"
    and "predictions r = [make_prediction (dailySales r)]"
    and "reports r = [make_report clock (weeklySales r)]"
    and "notifications r = notifications_of env clock orders"
    by (simp_all add: analytics_of_def Let_def)
qed

lemma daily_bucket_members:
  assumes "recalculateAnalytics env clock orders = Inr r" and "b \<in> set (dailySales r)"
  shows "b = daily_sale_of env (bkey b, members date_of orders (bkey b))"
    and "members date_of orders (bkey b) \<noteq> []"
proof -
  obtain k os where e: "(k, os) \<in> set (push_all date_of orders [])"
    and b: "b = daily_sale_of env (k, os)"
    using assms by (auto simp: recalculate_Inr(2) set_dict_entries)
  have k: "bkey b = k"
    unfolding b by (simp add: daily_sale_of_def bucket_of_def make_sale_def Let_def)
  from e have os: "members date_of orders k = os" and ne: "os \<noteq> []"
    by (auto simp: push_all_entries)
  show "b = daily_sale_of env (bkey b, members date_of orders (bkey b))"
    unfolding k os by (rule b)
  show "members date_of orders (bkey b) \<noteq> []"
    unfolding k os by (rule ne)
qed

lemma weekly_bucket_members:
  assumes "recalculateAnalytics env clock orders = Inr r" and "b \<in> set (weeklySales r)"
  shows "b = weekly_sale_of env (bkey b, members (week_of env) orders (bkey b))"
    and "members (week_of env) orders (bkey b) \<noteq> []"
proof -
  obtain k os where e: "(k, os) \<in> set (push_all (week_of env) orders [])"
    and b: "b = weekly_sale_of env (k, os)"
    using assms by (auto simp: recalculate_Inr(3) set_dict_entries)
  have k: "bkey b = k"
    unfolding b by (simp add: weekly_sale_of_def bucket_of_def make_sale_def Let_def)
  from e have os: "members (week_of env) orders k = os" and ne: "os \<noteq> []"
    by (auto simp: push_all_entries)
  show "b = weekly_sale_of env (bkey b, members (week_of env) orders (bkey b))"
    unfolding k os by (rule b)
  show "members (week_of env) orders (bkey b) \<noteq> []"
    unfolding k os by (rule ne)
qed

text \<open>The elements of the two collections, by the members of their buckets.\<close>

lemma sale_cases:
  assumes "recalculateAnalytics env clock orders = Inr r"
  shows "b \<in> set (dailySales r) \<Longrightarrow>
           \<exists>i. b = bucket_of env i (bkey b) (members date_of orders (bkey b))"
    and "b \<in> set (weeklySales r) \<Longrightarrow>
           \<exists>i. b = bucket_of env i (bkey b) (members (week_of env) orders (bkey b))"
  using daily_bucket_members(1) [OF assms] weekly_bucket_members(1) [OF assms]
  by (auto simp: daily_sale_of_def weekly_sale_of_def)

section \<open>The clock\<close>

text \<open>
  Claim C1. Two recalculations of the same ledger in the same environment, at
  whatever times, both throw or both return, with the same daily and weekly elements,
  the same prediction, the same report but for its \<open>date\<close>, and the same notification
  but for its \<open>timestamp\<close>.
\<close>

theorem recalculation_ignores_clock:
  "without_clock (recalculateAnalytics env clock1 orders)
     = without_clock (recalculateAnalytics env clock2 orders)"
  by (simp add: recalculate_eq without_clock_def analytics_of_def Let_def make_report_def
      notifications_of_def)

section \<open>The examples, evaluated\<close>

lemma order_a_fields:
  "order_a ''createdAt'' = Some (JStr ''2023-12-31T21:30:00.000Z'')"
  "order_a ''totalAmount'' = Some (JNum (Fin 50))"
  "order_a ''status'' = Some (JStr ''Delivered'')"
  "order_a ''paymentMethod'' = Some (JStr ''Cash'')"
  "order_a ''shopName'' = Some (JStr ''A'')"
  "order_a ''id'' = Some (JNum (Fin 1))"
  by (simp_all add: order_a_def)

lemma order_b_fields:
  "order_b ''createdAt'' = Some (JStr ''2023-12-31T21:30:00.000Z'')"
  "order_b ''totalAmount'' = Some (JNum (Fin 50))"
  "order_b ''status'' = Some (JStr ''Pending'')"
  "order_b ''paymentMethod'' = Some (JStr ''Bank'')"
  "order_b ''shopName'' = Some (JStr ''B'')"
  "order_b ''id'' = Some (JNum (Fin 2))"
  "order_b ''deliveredAt'' = Some JNull"
  by (simp_all add: order_b_def)

lemma example_week_key:
  "getWeekNumber example_env (dateParse example_env ''2023-12-31T21:30:00.000Z'') = ''2024-W1''"
  "getWeekNumber example_env (dateParse example_env ''2024-01-02T10:00:00.000Z'') = ''2024-W1''"
  by (simp add: example_env_def getWeekNumber_def; code_simp)+

lemma example_keys_plain:
  "\<not> proto_member ''2023-12-31''" "\<not> proto_member ''2024-01-02''"
  "\<not> is_array_index ''2023-12-31''" "\<not> is_array_index ''2024-01-02''"
  "\<not> is_array_index ''2024-W1''" "\<not> is_array_index ''A''" "\<not> is_array_index ''B''"
  by code_simp+

lemma example_ids:
  "parseInt ''20231231'' = Fin 20231231"
  "parseInt ''20240102'' = Fin 20240102"
  "parseInt ''2024-1'' = Fin 2024"
  by code_simp+

lemma dict_entries_single: "\<not> is_array_index k \<Longrightarrow> dict_entries [(k, v)] = [(k, v)]"
  by (simp add: dict_entries_def)

lemma tie_pushed:
  "push_all date_of tie_ledger [] = [(''2023-12-31'', tie_ledger)]"
  "push_all (week_of example_env) tie_ledger [] = [(''2024-W1'', tie_ledger)]"
  by (simp_all add: tie_ledger_def date_of_def week_of_def order_a_fields order_b_fields
      example_week_key)

lemma tie_bucket: "bucket_of example_env i k tie_ledger = tie_sale i k"
  by (simp add: bucket_of_def make_sale_def tie_sale_def tie_ledger_def sum_of_def amount_of_def
      count_status_def order_a_fields order_b_fields shop_revenue_of_def shop_step_of_def
      shop_of_def to_string_def read_or0_def num_or0_def top_shop_def Object_keys_def
      dict_entries_def example_keys_plain read_gt_def payment_breakdown_of_def
      payment_step_of_def method_of_def payment_init_def hasOwnProperty_def dict_add_def Let_def)

lemma tie_recalculable: "recalculable tie_ledger"
  by (simp add: recalculable_def tie_ledger_def groupable_def order_ok_def amount_ok_def
      method_of_def converts_def notification_ok_def date_of_def order_a_fields order_b_fields
      example_keys_plain)

lemma tie_recalculated:
  "recalculateAnalytics example_env clock tie_ledger = Inr (tie_analytics clock)"
  by (simp add: recalculate_eq tie_recalculable analytics_of_def tie_pushed dict_entries_single
      example_keys_plain daily_sale_of_def weekly_sale_of_def tie_bucket example_ids
      notifications_of_def Let_def tie_analytics_def)
     (simp add: tie_ledger_def order_b_fields)

lemma tie_members:
  "members date_of tie_ledger ''2023-12-31'' = tie_ledger"
  "members (week_of example_env) tie_ledger ''2024-W1'' = tie_ledger"
  by (simp_all add: members_def tie_ledger_def date_of_def week_of_def order_a_fields
      order_b_fields example_week_key)

lemma order_c_fields:
  "order_c ''createdAt'' = Some (JStr ''2024-01-02T10:00:00.000Z'')"
  "order_c ''totalAmount'' = Some (JNum (Fin 50))"
  "order_c ''status'' = Some (JStr ''Pending'')"
  "order_c ''paymentMethod'' = Some (JStr ''Cash'')"
  "order_c ''shopName'' = Some (JStr ''A'')"
  "order_c ''id'' = Some (JNum (Fin 1))"
  by (simp_all add: order_c_def)

lemma order_d_fields:
  "order_d ''createdAt'' = Some (JStr ''2024-01-02T10:00:00.000Z'')"
  "order_d ''totalAmount'' = Some (JNum (Fin 30))"
  "order_d ''status'' = Some (JStr ''Pending'')"
  "order_d ''paymentMethod'' = Some (JStr ''Bank Transfer'')"
  "order_d ''shopName'' = Some (JStr ''A'')"
  "order_d ''id'' = Some (JNum (Fin 2))"
  by (simp_all add: order_d_def)

lemma scenario_pushed:
  "push_all date_of scenario_ledger [] = [(''2024-01-02'', scenario_ledger)]"
  "push_all (week_of example_env) scenario_ledger [] = [(''2024-W1'', scenario_ledger)]"
  by (simp_all add: scenario_ledger_def date_of_def week_of_def order_c_fields order_d_fields
      example_week_key)

lemma scenario_bucket: "bucket_of example_env i k scenario_ledger = scenario_sale i k"
  by (simp add: bucket_of_def make_sale_def scenario_sale_def scenario_ledger_def sum_of_def
      amount_of_def count_status_def order_c_fields order_d_fields shop_revenue_of_def
      shop_step_of_def shop_of_def to_string_def read_or0_def num_or0_def top_shop_def
      Object_keys_def dict_entries_def example_keys_plain read_gt_def payment_breakdown_of_def
      payment_step_of_def method_of_def payment_init_def hasOwnProperty_def dict_add_def Let_def)

lemma scenario_recalculable: "recalculable scenario_ledger"
  by (simp add: recalculable_def scenario_ledger_def groupable_def order_ok_def amount_ok_def
      method_of_def converts_def notification_ok_def date_of_def order_c_fields order_d_fields
      example_keys_plain)

lemma scenario_recalculated:
  "recalculateAnalytics example_env clock scenario_ledger = Inr (scenario_analytics clock)"
  by (simp add: recalculate_eq scenario_recalculable analytics_of_def scenario_pushed
      dict_entries_single example_keys_plain daily_sale_of_def weekly_sale_of_def scenario_bucket
      example_ids notifications_of_def Let_def scenario_analytics_def)
     (simp add: scenario_ledger_def order_d_fields)

lemma scenario_members:
  "members date_of scenario_ledger ''2024-01-02'' = scenario_ledger"
  "members (week_of example_env) scenario_ledger ''2024-W1'' = scenario_ledger"
  by (simp_all add: members_def scenario_ledger_def date_of_def week_of_def order_c_fields
      order_d_fields example_week_key)

theorem recalculation_ignores_clock_witness:
  "without_clock (recalculateAnalytics example_env (\<lambda>k. ''2024-02-03T08:15:00.000Z'') tie_ledger)
     = without_clock (recalculateAnalytics example_env (\<lambda>k. ''2025-06-07T23:59:59.999Z'') tie_ledger)
   \<and> without_clock (recalculateAnalytics example_env (\<lambda>k. ''2025-06-07T23:59:59.999Z'') tie_ledger)
     = Inr ([tie_sale (Fin 20231231) ''2023-12-31''], [tie_sale (Fin 2024) ''2024-W1''],
            [make_prediction [tie_sale (Fin 20231231) ''2023-12-31'']],
            [(make_report (\<lambda>k. []) [tie_sale (Fin 2024) ''2024-W1''])], [])"
  using recalculation_ignores_clock [of example_env "\<lambda>k. ''2024-02-03T08:15:00.000Z''" tie_ledger
      "\<lambda>k. ''2025-06-07T23:59:59.999Z''"]
  by (simp add: tie_recalculated without_clock_def tie_analytics_def make_report_def)

section \<open>Counters and average\<close>

lemma count_status_partition:
  "length os = count_status ''Delivered'' os + count_status ''Pending'' os
               + count_status ''In Process'' os + length (filter unclassified os)"
  by (induction os) (auto simp: count_status_def unclassified_def)

lemma counters_hold_bucket:
  assumes "os \<noteq> []"
  shows "counters_hold (bucket_of env i k os) os"
proof -
  let ?b = "bucket_of env i k os"
  have "totalOrders ?b = length os"
    by (simp add: bucket_of_def make_sale_def Let_def)
  moreover have "0 < length os"
    using assms by simp
  moreover have "length os = deliveredOrders ?b + pendingOrders ?b + inProcessOrders ?b
                   + length (filter unclassified os)"
    using count_status_partition [of os] by (simp add: bucket_of_def make_sale_def Let_def)
  ultimately show ?thesis
    unfolding counters_hold_def by linarith
qed

text \<open>
  The average is the quotient of the revenue by the number of orders, and 0 for no
  order: the code does not divide by zero.
\<close>

lemma average_bucket: "average_is_quotient (bucket_of env i k os)"
  by (simp add: average_is_quotient_def bucket_of_def make_sale_def Let_def)

lemma average_of_no_order:
  "averageOrderValue (make_sale i k [] revenue breakdown shopRevenue) = Fin 0"
  by (simp add: make_sale_def Let_def)

text \<open>
  The product of the average and the count is near the revenue, for a revenue in range
  and a count that is positive and below \<open>2^32\<close>.
\<close>

lemma product_near:
  fixes n :: nat
  assumes n: "0 < n" "n < 2 ^ 32" and t: "in_range t"
  shows "near (rounding_slack t n) (js_mul (js_div t (Fin (of_nat n))) (Fin (of_nat n))) t"
proof (cases t)
  case NaN
  then show ?thesis using t by (simp add: in_range_def)
next
  case NInf
  then show ?thesis using n by (simp add: inf_of_sign_def)
next
  case PInf
  then show ?thesis using n by (simp add: inf_of_sign_def)
next
  case (Fin x)
  then have x: "\<bar>x\<bar> \<le> 2 ^ 1023"
    using t by (simp add: in_range_def)
  have N: "(of_nat n :: rat) \<noteq> 0"
    using n by simp
  let ?a = "nearest (x / of_nat n)"
  let ?p = "nearest (?a * of_nat n)"
  have "js_div t (Fin (of_nat n)) = Fin ?a"
    using quotient_product_finite(1) [OF n x] N by (simp add: Fin)
  moreover have "js_mul (Fin ?a) (Fin (of_nat n)) = Fin ?p"
    using quotient_product_finite(2) [OF n x] by simp
  moreover have "\<bar>?p - x\<bar> \<le> 3 * \<bar>x\<bar> / 2 ^ 53 + (of_nat n + 1) / 2 ^ 1074"
    by (rule quotient_product_error [OF n(1)])
  ultimately show ?thesis
    by (simp add: Fin rounding_slack_def)
qed

lemma product_near_bucket:
  assumes "os \<noteq> []" and "length os < 2 ^ 32" and "in_range (totalRevenue (bucket_of env i k os))"
  shows "product_near_revenue (bucket_of env i k os)"
proof -
  have n: "0 < length os" using assms(1) by simp
  have r: "in_range (sum_of env os)"
    using assms(3) by (simp add: bucket_of_def make_sale_def Let_def)
  show ?thesis
    using product_near [OF n assms(2) r] n
    by (simp add: product_near_revenue_def bucket_of_def make_sale_def Let_def)
qed

lemma js_div_NaN [simp]: "js_div NaN y = NaN"
  by (cases y) simp_all

lemma length_members: "length (members f xs k) \<le> length xs"
  by (simp add: members_def)

text \<open>What the theorem below states of one element \<open>b\<close> with the members \<open>os\<close>.\<close>

lemma element_average_and_counts:
  assumes "os \<noteq> []" and "length os < 2 ^ 32" and "b = bucket_of env i k os"
  shows "counters_hold b os \<and> average_is_quotient b
         \<and> (in_range (totalRevenue b) \<longrightarrow> product_near_revenue b)
         \<and> (totalRevenue b = NaN \<longrightarrow> averageOrderValue b = NaN)"
proof -
  have "averageOrderValue b = NaN" if "totalRevenue b = NaN"
    using that assms(1) by (simp add: assms(3) bucket_of_def make_sale_def Let_def)
  then show ?thesis
    unfolding assms(3)
    using counters_hold_bucket [OF assms(1)] average_bucket
      product_near_bucket [OF assms(1,2)]
    by (simp add: assms(3))
qed

text \<open>
  Claim C8, as the code has it. In every daily and every weekly element of a
  recalculation of a ledger of fewer than \<open>2^32\<close> orders (the bound on the length of an
  array), the number of orders is positive and is the sum of the three status counters
  and of the number of members that none of them counts, and the average is the
  revenue divided by the number of orders, as the doubles compute it. When the revenue
  is an infinity or a finite number of at most \<open>2^1023\<close> in magnitude, the average
  times the number of orders is near the revenue: the same infinity, or a finite number
  that differs from it by at most three relative roundings and the absolute error of
  the subnormal range. When the revenue is \<open>NaN\<close>, so is the average. The members of an
  element are the orders of the ledger with its key.
\<close>

theorem bucket_average_and_counts:
  assumes "recalculateAnalytics env clock orders = Inr r" and "length orders < 2 ^ 32"
  shows "(\<forall>b\<in>set (dailySales r).
            counters_hold b (members date_of orders (bkey b))
            \<and> average_is_quotient b
            \<and> (in_range (totalRevenue b) \<longrightarrow> product_near_revenue b)
            \<and> (totalRevenue b = NaN \<longrightarrow> averageOrderValue b = NaN))
         \<and> (\<forall>b\<in>set (weeklySales r).
            counters_hold b (members (week_of env) orders (bkey b))
            \<and> average_is_quotient b
            \<and> (in_range (totalRevenue b) \<longrightarrow> product_near_revenue b)
            \<and> (totalRevenue b = NaN \<longrightarrow> averageOrderValue b = NaN))"
proof (rule conjI; rule ballI)
  fix b assume b: "b \<in> set (dailySales r)"
  let ?os = "members date_of orders (bkey b)"
  obtain i where i: "b = bucket_of env i (bkey b) ?os"
    using sale_cases(1) [OF assms(1) b] by blast
  have "length ?os < 2 ^ 32"
    using length_members [of date_of orders "bkey b"] assms(2) by linarith
  then show "counters_hold b ?os
            \<and> average_is_quotient b
            \<and> (in_range (totalRevenue b) \<longrightarrow> product_near_revenue b)
            \<and> (totalRevenue b = NaN \<longrightarrow> averageOrderValue b = NaN)"
    using daily_bucket_members(2) [OF assms(1) b] i by (intro element_average_and_counts)
next
  fix b assume b: "b \<in> set (weeklySales r)"
  let ?os = "members (week_of env) orders (bkey b)"
  obtain i where i: "b = bucket_of env i (bkey b) ?os"
    using sale_cases(2) [OF assms(1) b] by blast
  have "length ?os < 2 ^ 32"
    using length_members [of "week_of env" orders "bkey b"] assms(2) by linarith
  then show "counters_hold b ?os
            \<and> average_is_quotient b
            \<and> (in_range (totalRevenue b) \<longrightarrow> product_near_revenue b)
            \<and> (totalRevenue b = NaN \<longrightarrow> averageOrderValue b = NaN)"
    using weekly_bucket_members(2) [OF assms(1) b] i by (intro element_average_and_counts)
qed

lemma tie_length: "length tie_ledger < 2 ^ 32"
  by (simp add: tie_ledger_def)

lemma tie_sale_bkey: "bkey (tie_sale i k) = k"
  by (simp add: tie_sale_def)

theorem bucket_average_and_counts_witness:
  "recalculateAnalytics example_env example_clock tie_ledger = Inr (tie_analytics example_clock)
   \<and> length tie_ledger < 2 ^ 32
   \<and> tie_sale (Fin 20231231) ''2023-12-31'' \<in> set (dailySales (tie_analytics example_clock))
   \<and> counters_hold (tie_sale (Fin 20231231) ''2023-12-31'') tie_ledger
   \<and> tie_sale (Fin 2024) ''2024-W1'' \<in> set (weeklySales (tie_analytics example_clock))
   \<and> counters_hold (tie_sale (Fin 2024) ''2024-W1'') tie_ledger
   \<and> average_is_quotient (tie_sale (Fin 2024) ''2024-W1'')
   \<and> in_range (totalRevenue (tie_sale (Fin 2024) ''2024-W1''))
   \<and> product_near_revenue (tie_sale (Fin 2024) ''2024-W1'')
   \<and> totalOrders (tie_sale (Fin 2024) ''2024-W1'') = 2
   \<and> averageOrderValue (tie_sale (Fin 2024) ''2024-W1'') = Fin 50
   \<and> totalRevenue (tie_sale (Fin 2024) ''2024-W1'') = Fin 100"
proof -
  have r: "in_range (totalRevenue (tie_sale i k))" for i k
    by (simp add: tie_sale_def in_range_def)
  from bucket_average_and_counts [OF tie_recalculated tie_length, of example_clock]
    tie_recalculated tie_length r
  show ?thesis
    by (simp add: tie_analytics_def tie_members tie_sale_bkey) (simp add: tie_sale_def)
qed

text \<open>
  The claim as the specification words it fails for an element whose revenue is
  \<open>NaN\<close>: an order whose amount \<open>parseFloat\<close> cannot read makes the revenue of its
  day and of its week \<open>NaN\<close>; the average and its product with the number of orders
  are \<open>NaN\<close> too, and \<open>NaN\<close> is equal or near to no number, itself included.
\<close>

lemma unpriced_order_fields:
  "unpriced_order ''createdAt'' = Some (JStr ''2024-01-02T10:00:00.000Z'')"
  "unpriced_order ''totalAmount'' = Some (JStr ''n/a'')"
  "unpriced_order ''status'' = Some (JStr ''Pending'')"
  "unpriced_order ''paymentMethod'' = Some (JStr ''Cash'')"
  "unpriced_order ''shopName'' = Some (JStr ''A'')"
  "unpriced_order ''id'' = Some (JNum (Fin 1))"
  by (simp_all add: unpriced_order_def)

lemma unpriced_amount: "amount_of example_env unpriced_order = NaN"
  by (simp add: amount_of_def unpriced_order_fields example_env_def)

lemma unpriced_bucket: "bucket_of example_env i k [unpriced_order] = unpriced_sale i k"
  by (simp add: bucket_of_def make_sale_def unpriced_sale_def sum_of_def unpriced_amount
      count_status_def unpriced_order_fields shop_revenue_of_def shop_step_of_def
      shop_of_def to_string_def read_or0_def num_or0_def top_shop_def Object_keys_def
      dict_entries_def example_keys_plain read_gt_def payment_breakdown_of_def
      payment_step_of_def method_of_def payment_init_def hasOwnProperty_def dict_add_def Let_def)

lemma unpriced_recalculated:
  "recalculateAnalytics example_env clock [unpriced_order] = Inr (unpriced_analytics clock)"
proof -
  have p: "push_all date_of [unpriced_order] [] = [(''2024-01-02'', [unpriced_order])]"
    "push_all (week_of example_env) [unpriced_order] [] = [(''2024-W1'', [unpriced_order])]"
    by (simp_all add: date_of_def week_of_def unpriced_order_fields example_week_key)
  have c: "recalculable [unpriced_order]"
    by (simp add: recalculable_def groupable_def order_ok_def amount_ok_def method_of_def
        converts_def notification_ok_def date_of_def unpriced_order_fields example_keys_plain)
  show ?thesis
    by (simp add: recalculate_eq c analytics_of_def p dict_entries_single example_keys_plain
        daily_sale_of_def weekly_sale_of_def unpriced_bucket example_ids notifications_of_def
        Let_def unpriced_analytics_def unpriced_order_fields del: push_all.simps)
qed

theorem average_of_nan_revenue_counterexample:
  "recalculateAnalytics example_env example_clock [unpriced_order]
     = Inr (unpriced_analytics example_clock)
   \<and> map totalRevenue (dailySales (unpriced_analytics example_clock)) = [NaN]
   \<and> map totalOrders (dailySales (unpriced_analytics example_clock)) = [1]
   \<and> map averageOrderValue (dailySales (unpriced_analytics example_clock)) = [NaN]
   \<and> js_mul NaN (Fin 1) = NaN
   \<and> \<not> product_near_revenue (unpriced_sale (Fin 20240102) ''2024-01-02'')"
  by (simp add: unpriced_recalculated unpriced_analytics_def unpriced_sale_def
      product_near_revenue_def)

section \<open>The forecast\<close>

text \<open>
  Claim C7, as the code has it. Not every recalculation produces a prediction: the
  call throws a \<open>TypeError\<close> unless every \<open>createdAt\<close> is missing, falsy or a string
  whose date part names no member of \<open>Object.prototype\<close>, and every conversion of an
  amount, a payment method, a shop name or the last \<open>id\<close> succeeds. A recalculation
  that returns has exactly one prediction: its value is 850 when there is no daily
  element, and the revenue of the last daily element times the double \<open>1.1\<close>, rounded,
  otherwise; its confidence is 85. There is no daily element exactly when no order has a
  day key.
\<close>

theorem prediction_from_last_day:
  "(recalculable orders \<longrightarrow>
      (\<exists>r. recalculateAnalytics env clock orders = Inr r
           \<and> predictions r =
               [\<lparr>p_id = 1, p_type = ''revenue'', timeframe = ''tomorrow'',
                 predictedValue =
                   (if dailySales r = [] then Fin 850
                    else js_mul (totalRevenue (last (dailySales r))) literal_1_1),
                 confidence = 85,
                 factors = [''historical_trend'', ''day_of_week'', ''seasonal_pattern'']\<rparr>]
           \<and> (dailySales r = [] \<longleftrightarrow> list_all (\<lambda>order. date_of order = None) orders)))
   \<and> (\<not> recalculable orders \<longrightarrow> recalculateAnalytics env clock orders = Inl TypeError)"
proof (intro conjI impI)
  assume c: "recalculable orders"
  then have r: "recalculateAnalytics env clock orders = Inr (analytics_of env clock orders)"
    by (simp add: recalculate_eq)
  let ?r = "analytics_of env clock orders"
  have "dailySales ?r = [] \<longleftrightarrow> list_all (\<lambda>order. date_of order = None) orders"
    by (simp add: recalculate_Inr(2) [OF r] dict_entries_Nil_iff push_all_Nil_iff list_all_iff)
  then show "\<exists>r. recalculateAnalytics env clock orders = Inr r
           \<and> predictions r =
               [\<lparr>p_id = 1, p_type = ''revenue'', timeframe = ''tomorrow'',
                 predictedValue =
                   (if dailySales r = [] then Fin 850
                    else js_mul (totalRevenue (last (dailySales r))) literal_1_1),
                 confidence = 85,
                 factors = [''historical_trend'', ''day_of_week'', ''seasonal_pattern'']\<rparr>]
           \<and> (dailySales r = [] \<longleftrightarrow> list_all (\<lambda>order. date_of order = None) orders)"
    using r recalculate_Inr(4) [OF r] by (simp add: make_prediction_def)
next
  assume "\<not> recalculable orders"
  then show "recalculateAnalytics env clock orders = Inl TypeError"
    by (simp add: recalculate_eq)
qed

lemma numbered_not_recalculable: "\<not> recalculable [numbered_order]"
  by (simp add: recalculable_def groupable_def numbered_order_def)

theorem prediction_from_last_day_witness:
  "recalculable tie_ledger
   \<and> recalculateAnalytics example_env example_clock tie_ledger = Inr (tie_analytics example_clock)
   \<and> map totalRevenue (dailySales (tie_analytics example_clock)) = [Fin 100]
   \<and> map predictedValue (predictions (tie_analytics example_clock))
       = [Fin (7740561859543041 / 70368744177664)]
   \<and> map confidence (predictions (tie_analytics example_clock)) = [85]
   \<and> \<not> recalculable [numbered_order]
   \<and> recalculateAnalytics example_env example_clock [numbered_order] = Inl TypeError"
  using prediction_from_last_day [of tie_ledger example_env example_clock]
    prediction_from_last_day [of "[numbered_order]" example_env example_clock]
    tie_recalculable numbered_not_recalculable
  by (simp add: tie_recalculated tie_analytics_def make_prediction_def tie_sale_def
      rounding_examples)

text \<open>
  The claim as the specification words it fails: the recalculation of a ledger with an
  order whose \<open>createdAt\<close> is the number 5, which has no method \<open>split\<close>, throws and
  produces no prediction; so does that of a ledger with an order whose amount is an
  object with a property \<open>toString\<close>, which \<open>parseFloat\<close> cannot convert.
\<close>

theorem recalculation_throws_counterexample:
  "recalculateAnalytics example_env example_clock [numbered_order] = Inl TypeError
   \<and> recalculateAnalytics example_env example_clock [opaque_order] = Inl TypeError"
  by (simp add: recalculate_eq recalculable_def groupable_def numbered_order_def
      opaque_order_def amount_ok_def)

section \<open>The payment breakdown\<close>

lemma payment_step_four:
  "payment_step_of env [(''Balance'', b), (''Cash'', c), (''Card'', d), (''Bank'', k)] order =
     [(''Balance'', if paid_to env ''Balance'' order then js_add b (amount_of env order) else b),
      (''Cash'', if paid_to env ''Cash'' order then js_add c (amount_of env order) else c),
      (''Card'', if paid_to env ''Card'' order then js_add d (amount_of env order) else d),
      (''Bank'', if paid_to env ''Bank'' order then js_add k (amount_of env order) else k)]"
  by (auto simp: payment_step_of_def paid_to_def method_name_def hasOwnProperty_def dict_add_def)

lemma foldl_payment_step:
  "foldl (payment_step_of env) [(''Balance'', b), (''Cash'', c), (''Card'', d), (''Bank'', k)] os =
     [(''Balance'', foldl (\<lambda>sum order. js_add sum (amount_of env order)) b
                      (filter (paid_to env ''Balance'') os)),
      (''Cash'', foldl (\<lambda>sum order. js_add sum (amount_of env order)) c
                   (filter (paid_to env ''Cash'') os)),
      (''Card'', foldl (\<lambda>sum order. js_add sum (amount_of env order)) d
                   (filter (paid_to env ''Card'') os)),
      (''Bank'', foldl (\<lambda>sum order. js_add sum (amount_of env order)) k
                   (filter (paid_to env ''Bank'') os))]"
proof (induction os arbitrary: b c d k)
  case Nil
  then show ?case by simp
next
  case (Cons order os)
  show ?case
    unfolding foldl_Cons payment_step_four Cons.IH by simp
qed

lemma payment_breakdown_by_method:
  "payment_breakdown_of env os = breakdown_by_method env os"
  by (simp add: payment_breakdown_of_def payment_init_def foldl_payment_step
      breakdown_by_method_def sum_of_def)

lemma paymentBreakdown_bucket:
  "paymentBreakdown (bucket_of env i k os) = breakdown_by_method env os"
  by (simp add: bucket_of_def make_sale_def Let_def payment_breakdown_by_method)

text \<open>
  Claim C6, as the code has it. In every daily and weekly element the payment breakdown
  has the four keys \<open>Balance\<close>, \<open>Cash\<close>, \<open>Card\<close> and \<open>Bank\<close>. A member whose payment
  method is the string \<open>Bank Transfer\<close> adds its amount to \<open>Bank\<close>; any other member
  adds its amount to the key that its method converts to, when that is one of the four:
  the method \<open>Bank\<close> adds to \<open>Bank\<close>, and the array \<open>["Cash"]\<close> adds to \<open>Cash\<close>. A member
  with any other method, or with none, enters no sum. Each key holds the sum, from 0 and
  in ledger order, of the amounts added to it.
\<close>

theorem payment_breakdown_of_buckets:
  assumes "recalculateAnalytics env clock orders = Inr r"
  shows "(\<forall>b\<in>set (dailySales r).
            paymentBreakdown b = breakdown_by_method env (members date_of orders (bkey b)))
         \<and> (\<forall>b\<in>set (weeklySales r).
            paymentBreakdown b
              = breakdown_by_method env (members (week_of env) orders (bkey b)))"
proof (rule conjI; rule ballI)
  fix b assume b: "b \<in> set (dailySales r)"
  show "paymentBreakdown b = breakdown_by_method env (members date_of orders (bkey b))"
    using sale_cases(1) [OF assms b] paymentBreakdown_bucket by metis
next
  fix b assume b: "b \<in> set (weeklySales r)"
  show "paymentBreakdown b = breakdown_by_method env (members (week_of env) orders (bkey b))"
    using sale_cases(2) [OF assms b] paymentBreakdown_bucket by metis
qed

lemma scenario_sale_bkey: "bkey (scenario_sale i k) = k"
  by (simp add: scenario_sale_def)

theorem payment_breakdown_of_buckets_witness:
  "recalculateAnalytics example_env example_clock scenario_ledger
     = Inr (scenario_analytics example_clock)
   \<and> map (amount_of example_env) scenario_ledger = [Fin 50, Fin 30]
   \<and> map (\<lambda>order. order ''paymentMethod'') scenario_ledger
       = [Some (JStr ''Cash''), Some (JStr ''Bank Transfer'')]
   \<and> map paymentBreakdown (dailySales (scenario_analytics example_clock))
       = [[(''Balance'', Fin 0), (''Cash'', Fin 50), (''Card'', Fin 0), (''Bank'', Fin 30)]]
   \<and> breakdown_by_method example_env scenario_ledger
       = [(''Balance'', Fin 0), (''Cash'', Fin 50), (''Card'', Fin 0), (''Bank'', Fin 30)]"
  using payment_breakdown_of_buckets [OF scenario_recalculated, of example_clock]
  by (simp add: scenario_recalculated scenario_analytics_def scenario_members scenario_sale_bkey)
     (simp add: scenario_sale_def scenario_ledger_def amount_of_def order_c_fields order_d_fields)

text \<open>
  The claim as the specification words it fails: the method \<open>Bank\<close> is none of
  \<open>Balance\<close>, \<open>Cash\<close>, \<open>Card\<close> and \<open>Bank Transfer\<close>, and the amount of an order paid by
  it is added to the key \<open>Bank\<close>, which is an own property of the breakdown.
\<close>

theorem payment_method_bank_counterexample:
  "map (\<lambda>order. order ''paymentMethod'') tie_ledger = [Some (JStr ''Cash''), Some (JStr ''Bank'')]
   \<and> map (amount_of example_env) tie_ledger = [Fin 50, Fin 50]
   \<and> recalculateAnalytics example_env example_clock tie_ledger = Inr (tie_analytics example_clock)
   \<and> map paymentBreakdown (dailySales (tie_analytics example_clock))
       = [[(''Balance'', Fin 0), (''Cash'', Fin 50), (''Card'', Fin 0), (''Bank'', Fin 50)]]"
  by (simp add: tie_recalculated tie_analytics_def tie_sale_def)
     (simp add: tie_ledger_def amount_of_def order_a_fields order_b_fields)

text \<open>
  A method that is no string is converted to a property key: an order of 20 paid by
  \<open>["Cash"]\<close> after an order of 50 paid by \<open>Cash\<close> brings the key \<open>Cash\<close> to 70. The
  array \<open>["Bank Transfer"]\<close> is not the string \<open>Bank Transfer\<close> and names no key.
\<close>

lemma array_method_example:
  "payment_breakdown example_env [order_c, array_order]
     = Inr [(''Balance'', Fin 0), (''Cash'', Fin 70), (''Card'', Fin 0), (''Bank'', Fin 0)]"
  "paid_to example_env ''Cash'' array_order"
  "list_all (\<lambda>k. \<not> paid_to example_env k
                     (array_order(''paymentMethod'' \<mapsto> JArr [JStr ''Bank Transfer''])))
     [''Balance'', ''Cash'', ''Card'', ''Bank'']"
proof -
  have "method_of array_order = JArr [JStr ''Cash'']"
    by (simp add: method_of_def array_order_def)
  moreover have "amount_ok array_order" "amount_of example_env array_order = Fin 20"
    by (simp_all add: amount_ok_def amount_of_def array_order_def)
  moreover have "method_of order_c = JStr ''Cash''" "amount_ok order_c"
    "amount_of example_env order_c = Fin 50"
    by (simp_all add: method_of_def amount_ok_def amount_of_def order_c_fields)
  ultimately show "payment_breakdown example_env [order_c, array_order]
     = Inr [(''Balance'', Fin 0), (''Cash'', Fin 70), (''Card'', Fin 0), (''Bank'', Fin 0)]"
    by (simp add: payment_breakdown_eq payment_breakdown_by_method breakdown_by_method_def
        paid_to_def method_name_def sum_of_def)
  show "paid_to example_env ''Cash'' array_order"
    by (simp add: paid_to_def method_name_def method_of_def array_order_def)
  show "list_all (\<lambda>k. \<not> paid_to example_env k
                     (array_order(''paymentMethod'' \<mapsto> JArr [JStr ''Bank Transfer''])))
     [''Balance'', ''Cash'', ''Card'', ''Bank'']"
    by (simp add: paid_to_def method_name_def method_of_def hasOwnProperty_def)
qed

section \<open>The ids of the elements\<close>

lemma week_number_2024_W1: "week_number_of_key ''2024-W1'' = Fin 1"
  by code_simp

text \<open>
  Claim C3. The \<open>id\<close> of a daily element is its date without the hyphens, read as an
  integer: 20240102 for 2 January 2024. The \<open>id\<close> of a weekly element is not the week
  number of its key: \<open>parseInt\<close> reads the key without its \<open>W\<close>, \<open>2024-1\<close>, and stops
  at the hyphen, so that the element of the week \<open>2024-W1\<close> has the \<open>id\<close> 2024, the
  year, where the week number is 1.
\<close>

theorem weekly_id_is_year:
  "recalculateAnalytics example_env example_clock scenario_ledger
     = Inr (scenario_analytics example_clock)
   \<and> map bkey (dailySales (scenario_analytics example_clock)) = [''2024-01-02'']
   \<and> map sale_id (dailySales (scenario_analytics example_clock)) = [Fin 20240102]
   \<and> map bkey (weeklySales (scenario_analytics example_clock)) = [''2024-W1'']
   \<and> map sale_id (weeklySales (scenario_analytics example_clock)) = [Fin 2024]
   \<and> week_number_of_key ''2024-W1'' = Fin 1"
  by (simp add: scenario_recalculated scenario_analytics_def scenario_sale_def
      week_number_2024_W1)

text \<open>All the weeks of a year have the same \<open>id\<close>.\<close>

lemma weeks_share_an_id:
  "parseInt (remove1 (CHR ''W'') ''2024-W1'') = Fin 2024"
  "parseInt (remove1 (CHR ''W'') ''2024-W52'') = Fin 2024"
  by code_simp+

section \<open>The top shop\<close>

lemma keys_dict_set:
  "map fst (dict_set k v d) = (if k \<in> set (map fst d) then map fst d else map fst d @ [k])"
  by (induction d) force+

lemma map_of_dict_set: "map_of (dict_set k v d) = (map_of d)(k \<mapsto> v)"
  by (induction d) (auto simp: fun_eq_iff)

lemma first_seen_snoc:
  "first_seen (xs @ [x]) = (if x \<in> set xs then first_seen xs else first_seen xs @ [x])"
  by (simp add: first_seen_def)

lemma set_first_seen: "set (first_seen xs) = set xs"
  by (simp add: first_seen_def)

lemma distinct_first_seen: "distinct (first_seen xs)"
  by (simp add: first_seen_def)

lemma shop_revenue_snoc:
  "shop_revenue_of env (os @ [order]) = shop_step_of env (shop_revenue_of env os) order"
  by (simp add: shop_revenue_of_def)

lemma keys_shop_revenue:
  "map fst (shop_revenue_of env os) = first_seen (map (shop_of env) os)"
proof (induction os rule: rev_induct)
  case Nil
  then show ?case by (simp add: shop_revenue_of_def first_seen_def)
next
  case (snoc order os)
  then show ?case
    by (simp add: shop_revenue_snoc shop_step_of_def keys_dict_set first_seen_snoc
        set_first_seen shop_of_def Let_def)
qed

lemma insort_key_fst:
  "map fst (insort_key (\<lambda>e. f (fst e)) x ys) = insort_key f (fst x) (map fst ys)"
  by (induction ys) auto

lemma sort_key_fst: "map fst (sort_key (\<lambda>e. f (fst e)) xs) = sort_key f (map fst xs)"
  by (induction xs) (simp_all add: insort_key_fst)

lemma Object_keys_order:
  "Object_keys d =
     sort_key index_value (filter is_array_index (map fst d))
     @ filter (\<lambda>k. \<not> is_array_index k) (map fst d)"
  by (simp add: Object_keys_def dict_entries_def sort_key_fst filter_map comp_def)

lemma Object_keys_shop_revenue: "Object_keys (shop_revenue_of env os) = shop_order env os"
  by (simp add: Object_keys_order keys_shop_revenue shop_order_def Let_def)

lemma set_shop_order: "set (shop_order env os) = shop_of env ` set os"
  by (auto simp: shop_order_def Let_def set_first_seen)

lemma distinct_shop_order: "distinct (shop_order env os)"
proof -
  let ?ks = "first_seen (map (shop_of env) os)"
  have "distinct (sort_key index_value (filter is_array_index ?ks))"
    by (simp add: distinct_first_seen)
  moreover have "distinct (filter (\<lambda>k. \<not> is_array_index k) ?ks)"
    by (simp add: distinct_first_seen)
  ultimately show ?thesis
    by (auto simp: shop_order_def Let_def)
qed

text \<open>A sum of finite amounts is a number: finite, or an infinity after an overflow.\<close>

lemma js_add_not_NaN: "s \<noteq> NaN \<Longrightarrow> js_add s (Fin a) \<noteq> NaN"
  by (cases s) simp_all

lemma foldl_finite_amounts:
  "list_all (finite_amount env) os \<Longrightarrow> s \<noteq> NaN \<Longrightarrow>
     foldl (\<lambda>sum order. js_add sum (amount_of env order)) s os \<noteq> NaN"
proof (induction os arbitrary: s)
  case Nil
  then show ?case by simp
next
  case (Cons order os)
  then obtain x where "amount_of env order = Fin x"
    by (auto simp: finite_amount_def split: jsnum.splits)
  then show ?case
    using Cons by (simp add: js_add_not_NaN)
qed

lemma shop_sum_not_NaN:
  assumes "list_all (finite_amount env) os"
  shows "shop_sum env os k \<noteq> NaN"
proof -
  have "list_all (finite_amount env) (filter (\<lambda>order. shop_of env order = k) os)"
    using assms by (simp add: list_all_iff)
  then show ?thesis
    unfolding shop_sum_def sum_of_def by (rule foldl_finite_amounts) simp
qed

lemma shop_sum_snoc:
  "shop_sum env (os @ [order]) k
     = (if shop_of env order = k then js_add (shop_sum env os k) (amount_of env order)
        else shop_sum env os k)"
  by (simp add: shop_sum_def sum_of_def)

lemma shop_sum_unseen: "k \<notin> shop_of env ` set os \<Longrightarrow> shop_sum env os k = Fin 0"
proof -
  assume "k \<notin> shop_of env ` set os"
  then have "filter (\<lambda>order. shop_of env order = k) os = []"
    by (auto simp: filter_empty_conv)
  then show ?thesis
    by (simp add: shop_sum_def sum_of_def)
qed

text \<open>With finite amounts, \<open>shopRevenue\<close> holds for each shop the sum of its amounts.\<close>

lemma map_of_shop_revenue:
  assumes "list_all (finite_amount env) os"
  shows "map_of (shop_revenue_of env os) k
           = (if k \<in> shop_of env ` set os then Some (shop_sum env os k) else None)"
  using assms
proof (induction os arbitrary: k rule: rev_induct)
  case Nil
  then show ?case by (simp add: shop_revenue_of_def)
next
  case (snoc order os)
  then have fin: "list_all (finite_amount env) os"
    by simp
  note IH = snoc.IH [OF fin]
  let ?k0 = "shop_of env order"
  have s: "shop_sum env os ?k0 \<noteq> NaN"
    using shop_sum_not_NaN [OF fin] .
  have read: "read_or0 (shop_revenue_of env os) ?k0 = shop_sum env os ?k0"
  proof (cases "?k0 \<in> shop_of env ` set os")
    case True
    then show ?thesis
      using s by (auto simp: read_or0_def IH num_or0_def)
  next
    case False
    then show ?thesis
      by (simp add: read_or0_def IH shop_sum_unseen)
  qed
  have step: "shop_revenue_of env (os @ [order])
                = dict_set ?k0 (js_add (shop_sum env os ?k0) (amount_of env order))
                    (shop_revenue_of env os)"
    using read by (simp add: shop_revenue_snoc shop_step_of_def)
  show ?case
    unfolding step map_of_dict_set
    by (simp add: IH shop_sum_snoc)
qed

text \<open>
  On numbers other than \<open>NaN\<close> the operator \<open>>\<close> is a linear order, that of the
  ranks.
\<close>

lemma js_gt_rank: "x \<noteq> NaN \<Longrightarrow> y \<noteq> NaN \<Longrightarrow> js_gt x y \<longleftrightarrow> js_rank y < js_rank x"
  by (cases x; cases y) auto

text \<open>
  The reduce keeps the later key unless the earlier one is greater: with an earlier
  key \<open>a\<close> and the keys \<open>ks\<close> after it, the result has the greatest value, and every
  key after the result has a smaller one.
\<close>

lemma reduce_last_maximum:
  fixes f :: "string \<Rightarrow> 'a::linorder"
  defines "pick \<equiv> (\<lambda>a b. if f b < f a then a else b)"
  shows "(foldl pick a ks = a \<and> (\<forall>j\<in>set ks. f j < f a))
         \<or> (\<exists>pre post. ks = pre @ foldl pick a ks # post
               \<and> f a \<le> f (foldl pick a ks)
               \<and> (\<forall>j\<in>set pre. f j \<le> f (foldl pick a ks))
               \<and> (\<forall>j\<in>set post. f j < f (foldl pick a ks)))"
proof (induction ks arbitrary: a)
  case Nil
  then show ?case by simp
next
  case (Cons k ks)
  let ?r = "foldl pick (pick a k) ks"
  have r: "foldl pick a (k # ks) = ?r"
    by simp
  from Cons [of "pick a k"]
  consider (keep) "?r = pick a k" "\<forall>j\<in>set ks. f j < f (pick a k)"
    | (later) pre post where "ks = pre @ ?r # post" "f (pick a k) \<le> f ?r"
        "\<forall>j\<in>set pre. f j \<le> f ?r" "\<forall>j\<in>set post. f j < f ?r"
    by blast
  then show ?case
  proof cases
    case keep
    show ?thesis
    proof (cases "f k < f a")
      case True
      then have "pick a k = a"
        by (simp add: pick_def)
      then show ?thesis
        using keep True by (simp add: r)
    next
      case False
      then have p: "pick a k = k"
        by (simp add: pick_def)
      have "k # ks = [] @ ?r # ks \<and> f a \<le> f ?r \<and> (\<forall>j\<in>set ks. f j < f ?r)"
        using keep False p by simp
      then show ?thesis
        unfolding r by (metis empty_iff list.set(1))
    qed
  next
    case later
    have "f a \<le> f (pick a k)" "f k \<le> f (pick a k)"
      by (auto simp: pick_def)
    then have "k # ks = (k # pre) @ ?r # post \<and> f a \<le> f ?r
               \<and> (\<forall>j\<in>set (k # pre). f j \<le> f ?r) \<and> (\<forall>j\<in>set post. f j < f ?r)"
      using later by auto
    then show ?thesis
      unfolding r by blast
  qed
qed

lemma foldl_pick_cong:
  fixes f :: "string \<Rightarrow> 'a::linorder"
  assumes "a \<in> S" and "set ks \<subseteq> S"
    and "\<And>x y. x \<in> S \<Longrightarrow> y \<in> S \<Longrightarrow> g x y = (f y < f x)"
  shows "foldl (\<lambda>a b. if g a b then a else b) a ks
           = foldl (\<lambda>a b. if f b < f a then a else (b::string)) a ks"
  using assms(1,2)
proof (induction ks arbitrary: a)
  case Nil
  then show ?case by simp
next
  case (Cons k ks)
  then have "(if g a k then a else k) = (if f k < f a then a else k)"
    and "(if f k < f a then a else k) \<in> S"
    using assms(3) by auto
  then show ?case
    using Cons by simp
qed

lemma last_maximalI:
  assumes "distinct ks" and "ks = pre @ k # post"
    and "\<forall>j\<in>set pre. js_rank (revenue j) \<le> js_rank (revenue k)"
    and "\<forall>j\<in>set post. js_rank (revenue j) < js_rank (revenue k)"
    and "\<And>j. revenue j \<noteq> NaN"
  shows "last_maximal revenue ks k"
proof -
  have gt: "js_gt (revenue x) (revenue y) \<longleftrightarrow> js_rank (revenue y) < js_rank (revenue x)" for x y
    by (rule js_gt_rank) (rule assms(5))+
  have "k \<notin> set pre"
    using assms(1,2) by auto
  then have "dropWhile (\<lambda>j. j \<noteq> k) (pre @ k # post) = dropWhile (\<lambda>j. j \<noteq> k) (k # post)"
    by (intro dropWhile_append2) auto
  then have "tl (dropWhile (\<lambda>j. j \<noteq> k) ks) = post"
    by (simp add: assms(2))
  then have post: "list_all (\<lambda>j. js_gt (revenue k) (revenue j)) (tl (dropWhile (\<lambda>j. j \<noteq> k) ks))"
    using assms(4) by (simp add: list_all_iff gt)
  have "\<not> js_rank (revenue k) < js_rank (revenue j)" if "j \<in> set ks" for j
  proof -
    from that consider "j \<in> set pre" | "j = k" | "j \<in> set post"
      using assms(2) by auto
    then show ?thesis
    proof cases
      case 1
      then show ?thesis using assms(3) by (simp add: not_less)
    next
      case 2
      then show ?thesis by simp
    next
      case 3
      then show ?thesis using assms(4) by (simp add: not_less less_imp_le)
    qed
  qed
  then have all: "list_all (\<lambda>j. \<not> js_gt (revenue j) (revenue k)) ks"
    by (simp add: list_all_iff gt)
  have "k \<in> set ks"
    by (simp add: assms(2))
  then show ?thesis
    using all post by (simp add: last_maximal_def)
qed

lemma top_shop_last_maximal:
  assumes "os \<noteq> []" and fin: "list_all (finite_amount env) os"
  shows "last_maximal (shop_sum env os) (shop_order env os) (top_shop (shop_revenue_of env os))"
proof -
  define f where "f k = js_rank (shop_sum env os k)" for k
  define d where "d = shop_revenue_of env os"
  define ks where "ks = shop_order env os"
  have rev: "shop_sum env os k \<noteq> NaN" for k
    using shop_sum_not_NaN [OF fin] .
  have look: "map_of d k = (if k \<in> set ks then Some (shop_sum env os k) else None)" for k
    by (simp add: d_def ks_def map_of_shop_revenue [OF fin] set_shop_order)
  have gt: "read_gt d x y = (f y < f x)" if "x \<in> set ks" "y \<in> set ks" for x y
    using that by (simp add: read_gt_def look f_def js_gt_rank [OF rev rev])
  have dist: "distinct ks"
    by (simp add: ks_def distinct_shop_order)
  have top: "top_shop d = foldl (\<lambda>a b. if read_gt d a b then a else b) ''N/A'' ks"
    by (simp add: top_shop_def d_def ks_def Object_keys_shop_revenue)
  obtain k1 rest where ks: "ks = k1 # rest"
    using assms(1) set_shop_order [of env os] by (cases ks) (auto simp: ks_def)
  let ?pick = "\<lambda>a b. if f b < f a then a else (b::string)"
  have "\<exists>pre post. ks = pre @ top_shop d # post
          \<and> (\<forall>j\<in>set pre. f j \<le> f (top_shop d)) \<and> (\<forall>j\<in>set post. f j < f (top_shop d))"
  proof (cases "''N/A'' \<in> set ks")
    case True
    have t: "top_shop d = foldl ?pick ''N/A'' ks"
      unfolding top by (rule foldl_pick_cong [of _ "set ks"]) (use True gt in auto)
    show ?thesis
      using reduce_last_maximum [of f "''N/A''" ks] True unfolding t by fastforce
  next
    case False
    then have "\<not> read_gt d ''N/A'' k1"
      by (simp add: read_gt_def look)
    then have "top_shop d = foldl (\<lambda>a b. if read_gt d a b then a else b) k1 rest"
      by (simp add: top ks)
    also have "\<dots> = foldl ?pick k1 rest"
      by (rule foldl_pick_cong [of _ "set ks"]) (use gt in \<open>auto simp: ks\<close>)
    finally have t: "top_shop d = foldl ?pick k1 rest" .
    from reduce_last_maximum [of f k1 rest]
    consider "foldl ?pick k1 rest = k1" "\<forall>j\<in>set rest. f j < f k1"
      | pre post where "rest = pre @ foldl ?pick k1 rest # post"
          "f k1 \<le> f (foldl ?pick k1 rest)" "\<forall>j\<in>set pre. f j \<le> f (foldl ?pick k1 rest)"
          "\<forall>j\<in>set post. f j < f (foldl ?pick k1 rest)"
      by blast
    then show ?thesis
    proof cases
      case 1
      then have "ks = [] @ top_shop d # rest \<and> (\<forall>j\<in>set rest. f j < f (top_shop d))"
        by (simp add: ks t)
      then show ?thesis
        by (metis empty_iff list.set(1))
    next
      case 2
      then have "ks = (k1 # pre) @ top_shop d # post
                 \<and> (\<forall>j\<in>set (k1 # pre). f j \<le> f (top_shop d))
                 \<and> (\<forall>j\<in>set post. f j < f (top_shop d))"
        unfolding t ks by auto
      then show ?thesis
        by blast
    qed
  qed
  then obtain pre post where "ks = pre @ top_shop d # post"
    "\<forall>j\<in>set pre. f j \<le> f (top_shop d)" "\<forall>j\<in>set post. f j < f (top_shop d)"
    by blast
  then have "last_maximal (shop_sum env os) ks (top_shop d)"
    using dist rev by (intro last_maximalI [of ks pre _ post]) (auto simp: f_def)
  then show ?thesis
    by (simp add: ks_def d_def)
qed

lemma topShop_bucket: "topShop (bucket_of env i k os) = top_shop (shop_revenue_of env os)"
  by (simp add: bucket_of_def make_sale_def Let_def)

lemma finite_members:
  "list_all (finite_amount env) orders \<Longrightarrow> list_all (finite_amount env) (members f orders k)"
  by (simp add: members_def list_all_iff)

text \<open>
  Claim C2, as the code has it. The reduce is \<open>(a, b) => rev[a] > rev[b] ? a : b\<close>: on
  equal revenues it returns \<open>b\<close>, the later key. For a ledger whose amounts are finite
  numbers (and whose shop names are no members of \<open>Object.prototype\<close>, where the model
  does not apply), the top shop of every daily and weekly element is the last maximum
  of the shops of the element in the order of \<open>Object.keys\<close>: no shop has a greater
  summed revenue, and every shop enumerated after it has a smaller one. Of two shops
  with the same greatest revenue the later one is the top shop. The summed revenue of a
  shop is the sum of its amounts from 0 in ledger order, rounded at every addition.
\<close>

theorem top_shop_is_last_maximum:
  assumes "recalculateAnalytics env clock orders = Inr r"
    and "list_all (finite_amount env) orders"
    and "list_all (\<lambda>order. \<not> proto_member (shop_of env order)) orders"
  shows "(\<forall>b\<in>set (dailySales r).
            last_maximal (shop_sum env (members date_of orders (bkey b)))
              (shop_order env (members date_of orders (bkey b))) (topShop b))
         \<and> (\<forall>b\<in>set (weeklySales r).
            last_maximal (shop_sum env (members (week_of env) orders (bkey b)))
              (shop_order env (members (week_of env) orders (bkey b))) (topShop b))"
proof (rule conjI; rule ballI)
  fix b assume b: "b \<in> set (dailySales r)"
  let ?os = "members date_of orders (bkey b)"
  have "topShop b = top_shop (shop_revenue_of env ?os)"
    using sale_cases(1) [OF assms(1) b] topShop_bucket by metis
  then show "last_maximal (shop_sum env ?os) (shop_order env ?os) (topShop b)"
    using top_shop_last_maximal [OF daily_bucket_members(2) [OF assms(1) b]
        finite_members [OF assms(2)]]
    by simp
next
  fix b assume b: "b \<in> set (weeklySales r)"
  let ?os = "members (week_of env) orders (bkey b)"
  have "topShop b = top_shop (shop_revenue_of env ?os)"
    using sale_cases(2) [OF assms(1) b] topShop_bucket by metis
  then show "last_maximal (shop_sum env ?os) (shop_order env ?os) (topShop b)"
    using top_shop_last_maximal [OF weekly_bucket_members(2) [OF assms(1) b]
        finite_members [OF assms(2)]]
    by simp
qed

lemma tie_shops:
  "shop_order example_env tie_ledger = [''A'', ''B'']"
  "shop_sum example_env tie_ledger ''A'' = Fin 50"
  "shop_sum example_env tie_ledger ''B'' = Fin 50"
  by (simp_all add: shop_order_def first_seen_def shop_of_def to_string_def shop_sum_def
      sum_of_def amount_of_def tie_ledger_def order_a_fields order_b_fields example_keys_plain)

lemma tie_amounts:
  "list_all (finite_amount example_env) tie_ledger"
  "list_all (\<lambda>order. \<not> proto_member (shop_of example_env order)) tie_ledger"
  by (simp_all add: finite_amount_def amount_of_def shop_of_def to_string_def tie_ledger_def
      order_a_fields order_b_fields proto_member_def)

theorem top_shop_is_last_maximum_witness:
  "recalculateAnalytics example_env example_clock tie_ledger = Inr (tie_analytics example_clock)
   \<and> list_all (finite_amount example_env) tie_ledger
   \<and> list_all (\<lambda>order. \<not> proto_member (shop_of example_env order)) tie_ledger
   \<and> shop_order example_env tie_ledger = [''A'', ''B'']
   \<and> map topShop (dailySales (tie_analytics example_clock)) = [''B'']
   \<and> last_maximal (shop_sum example_env tie_ledger) [''A'', ''B''] ''B''"
  using top_shop_is_last_maximum [OF tie_recalculated tie_amounts, of example_clock]
  by (simp add: tie_recalculated tie_amounts tie_analytics_def tie_members tie_shops
      tie_sale_bkey)
     (simp add: tie_sale_def)

text \<open>
  The claim as the specification words it fails: in the example the shops \<open>A\<close> and
  \<open>B\<close> have the same revenue, 50, the order of \<open>A\<close> comes first, and the top shop of
  the daily and of the weekly element is \<open>B\<close>.
\<close>

theorem top_shop_tie_counterexample:
  "map (shop_of example_env) tie_ledger = [''A'', ''B'']
   \<and> shop_sum example_env tie_ledger ''A'' = Fin 50
   \<and> shop_sum example_env tie_ledger ''B'' = Fin 50
   \<and> recalculateAnalytics example_env example_clock tie_ledger = Inr (tie_analytics example_clock)
   \<and> map topShop (dailySales (tie_analytics example_clock)) = [''B'']
   \<and> map topShop (weeklySales (tie_analytics example_clock)) = [''B'']"
  by (simp add: tie_recalculated tie_analytics_def tie_sale_def tie_shops)
     (simp add: tie_ledger_def shop_of_def to_string_def order_a_fields order_b_fields)

text \<open>
  The sums are sums of doubles. The shops of the second example have the same amounts
  and the same exact sum; added in ledger order the amounts of \<open>A\<close> give 60.6 and
  those of \<open>B\<close> give 60.599999999999994, and the top shop is \<open>A\<close>.
\<close>

lemma rounding_sums:
  "js_add (Fin 0) (Fin (8528691794332877 / 281474976710656))
     = Fin (8528691794332877 / 281474976710656)"
  "js_add (Fin (8528691794332877 / 281474976710656)) (Fin (5685794529555251 / 281474976710656))
     = Fin (101 / 2)"
  "js_add (Fin (101 / 2)) (Fin (5685794529555251 / 562949953421312))
     = Fin (8528691794332877 / 140737488355328)"
  "js_add (Fin 0) (Fin (5685794529555251 / 562949953421312))
     = Fin (5685794529555251 / 562949953421312)"
  "js_add (Fin (5685794529555251 / 562949953421312)) (Fin (5685794529555251 / 281474976710656))
     = Fin (2132172948583219 / 70368744177664)"
  "js_add (Fin (2132172948583219 / 70368744177664)) (Fin (8528691794332877 / 281474976710656))
     = Fin (2132172948583219 / 35184372088832)"
  by code_simp+

lemma priced_fields:
  "priced shop a ''shopName'' = Some (JStr shop)"
  "priced shop a ''totalAmount'' = Some (JNum (Fin a))"
  by (simp_all add: priced_def)

lemma rounding_top_shop:
  "shop_revenue example_env rounding_ledger
     = Inr [(''A'', Fin (8528691794332877 / 140737488355328)),
            (''B'', Fin (2132172948583219 / 35184372088832))]"
  "top_shop [(''A'', Fin (8528691794332877 / 140737488355328)),
             (''B'', Fin (2132172948583219 / 35184372088832))] = ''A''"
  "(8528691794332877 / 281474976710656 + 5685794529555251 / 281474976710656
      + 5685794529555251 / 562949953421312 :: rat)
   = 5685794529555251 / 562949953421312 + 5685794529555251 / 281474976710656
      + 8528691794332877 / 281474976710656"
proof -
  have ok: "list_all (\<lambda>order. converts (order ''shopName'') \<and> amount_ok order) rounding_ledger"
    by (simp add: rounding_ledger_def priced_fields converts_def amount_ok_def)
  have amt: "amount_of env (priced shop a) = (if a = 0 then Fin 0 else Fin a)" for env shop a
    by (simp add: amount_of_def priced_fields)
  show "shop_revenue example_env rounding_ledger
     = Inr [(''A'', Fin (8528691794332877 / 140737488355328)),
            (''B'', Fin (2132172948583219 / 35184372088832))]"
    unfolding shop_revenue_eq using ok
    by (simp add: shop_revenue_of_def shop_step_of_def shop_of_def to_string_def priced_fields
        rounding_ledger_def amt read_or0_def num_or0_def rounding_sums del: js_add.simps)
  show "top_shop [(''A'', Fin (8528691794332877 / 140737488355328)),
             (''B'', Fin (2132172948583219 / 35184372088832))] = ''A''"
    by (simp add: top_shop_def Object_keys_def dict_entries_def example_keys_plain read_gt_def)
  show "(8528691794332877 / 281474976710656 + 5685794529555251 / 281474976710656
      + 5685794529555251 / 562949953421312 :: rat)
   = 5685794529555251 / 562949953421312 + 5685794529555251 / 281474976710656
      + 8528691794332877 / 281474976710656"
    by simp
qed


end
